theory Spec2Isabelle
  imports Complex_Main
begin

section \<open>PhantomOS face tracking: the per-frame pipeline of kernel/face_track.py\<close>

text \<open>
  The development embeds the tracking core of \<^verbatim>\<open>src/kernel/face_track.py\<close>:
  the aspect-ratio computations, the gesture classifier \<^verbatim>\<open>detect_gesture\<close>,
  the tracking-point extractor \<^verbatim>\<open>get_tracking_point\<close>, and
  \<^verbatim>\<open>process_frame\<close> with the loop of \<^verbatim>\<open>run\<close>.

  Conventions of the embedding.
  \<^item> A Python \<^verbatim>\<open>float\<close> is a \<open>real\<close>: the arithmetic is the exact one, so
    rounding, infinities and NaN are outside the model. Python integers are \<open>int\<close>.
  \<^item> A landmark list is a \<open>FaceLandmark list\<close>; \<^verbatim>\<open>None\<close> and the empty list are
    both the empty list (the source only ever tests \<^verbatim>\<open>not landmarks\<close>).
    \<^verbatim>\<open>landmarks[i]\<close> beyond the end raises \<^verbatim>\<open>IndexError\<close>, which is the
    value \<open>Inl IndexError\<close>.
  \<^item> The object's fields are a record that every method takes and returns.
  \<^item> What the camera, the detector, the clock and the keyboard deliver for one frame is
    the record \<open>Frame\<close>.
\<close>

subsection \<open>Errors and indexing\<close>

datatype py_error = IndexError

definition bind_py :: "py_error + 'a \<Rightarrow> ('a \<Rightarrow> py_error + 'b) \<Rightarrow> py_error + 'b" where
  "bind_py m f = (case m of Inl e \<Rightarrow> Inl e | Inr v \<Rightarrow> f v)"

text \<open>\<^verbatim>\<open>xs[i]\<close> for a non-negative index.\<close>

definition nth_py :: "'a list \<Rightarrow> nat \<Rightarrow> py_error + 'a" where
  "nth_py xs i = (if i < length xs then Inr (xs ! i) else Inl IndexError)"

subsection \<open>Landmarks and their indices\<close>

text \<open>Class \<^verbatim>\<open>FaceLandmark\<close>; its fields \<^verbatim>\<open>x\<close>, \<^verbatim>\<open>y\<close>, \<^verbatim>\<open>z\<close> are
  \<open>lm_x\<close>, \<open>lm_y\<close>, \<open>lm_z\<close> here.\<close>

datatype FaceLandmark = FaceLandmark (lm_x: real) (lm_y: real) (lm_z: real)

definition NOSE_TIP :: nat where "NOSE_TIP = 4"
definition LEFT_EYE_OUTER :: nat where "LEFT_EYE_OUTER = 33"
definition LEFT_EYE_INNER :: nat where "LEFT_EYE_INNER = 133"
definition RIGHT_EYE_OUTER :: nat where "RIGHT_EYE_OUTER = 362"
definition RIGHT_EYE_INNER :: nat where "RIGHT_EYE_INNER = 263"
definition LEFT_EYE_TOP :: nat where "LEFT_EYE_TOP = 159"
definition LEFT_EYE_BOTTOM :: nat where "LEFT_EYE_BOTTOM = 145"
definition RIGHT_EYE_TOP :: nat where "RIGHT_EYE_TOP = 386"
definition RIGHT_EYE_BOTTOM :: nat where "RIGHT_EYE_BOTTOM = 374"
definition UPPER_LIP :: nat where "UPPER_LIP = 13"
definition LOWER_LIP :: nat where "LOWER_LIP = 14"
definition LEFT_MOUTH :: nat where "LEFT_MOUTH = 61"
definition RIGHT_MOUTH :: nat where "RIGHT_MOUTH = 291"
definition CHIN :: nat where "CHIN = 152"
definition FOREHEAD :: nat where "FOREHEAD = 10"

subsection \<open>The tracker object\<close>

record FaceTracker =
  mode :: string
  camera_id :: int
  show_preview :: bool
  cap_opened :: bool
  use_mediapipe :: bool
  left_eye_closed_frames :: int
  right_eye_closed_frames :: int
  mouth_open_frames :: int
  last_gesture :: string
  gesture_cooldown :: int
  smooth_x :: real
  smooth_y :: real
  smoothing_factor :: real
  frame_count :: int
  start_time :: real
  timestamp_ms :: int

text \<open>
  \<^verbatim>\<open>FaceTracker.__init__\<close>. \<open>cap_opened\<close> stands for
  \<^verbatim>\<open>self.cap and self.cap.isOpened()\<close> (\<^verbatim>\<open>self.cap = None\<close> at construction) and
  \<open>use_mediapipe\<close> for \<^verbatim>\<open>HAVE_MEDIAPIPE and self.landmarker\<close>, which the
  constructor settles from the installation: it is the argument \<open>mp\<close>. \<open>now\<close> is
  the value of \<^verbatim>\<open>time.time()\<close>.
\<close>

definition FaceTracker_init :: "string \<Rightarrow> int \<Rightarrow> bool \<Rightarrow> bool \<Rightarrow> real \<Rightarrow> FaceTracker" where
  "FaceTracker_init md cam preview mp now =
     \<lparr> mode = md, camera_id = cam, show_preview = preview,
       cap_opened = False, use_mediapipe = mp,
       left_eye_closed_frames = 0, right_eye_closed_frames = 0, mouth_open_frames = 0,
       last_gesture = ''none'', gesture_cooldown = 0,
       smooth_x = 0.5, smooth_y = 0.5, smoothing_factor = 0.3,
       frame_count = 0, start_time = now, timestamp_ms = 0 \<rparr>"

subsection \<open>Aspect ratios\<close>

text \<open>\<^verbatim>\<open>calculate_eye_aspect_ratio(landmarks, eye_indices)\<close>: the four landmarks are
  read before the horizontal distance is tested.\<close>

definition calculate_eye_aspect_ratio :: "FaceLandmark list \<Rightarrow> nat list \<Rightarrow> py_error + real" where
  "calculate_eye_aspect_ratio landmarks eye_indices =
     (if landmarks = [] then Inr 1.0
      else
        bind_py (bind_py (nth_py eye_indices 0) (nth_py landmarks)) (\<lambda>top.
        bind_py (bind_py (nth_py eye_indices 1) (nth_py landmarks)) (\<lambda>bottom.
        bind_py (bind_py (nth_py eye_indices 2) (nth_py landmarks)) (\<lambda>left.
        bind_py (bind_py (nth_py eye_indices 3) (nth_py landmarks)) (\<lambda>right.
          let v_dist = sqrt ((lm_x top - lm_x bottom)\<^sup>2 + (lm_y top - lm_y bottom)\<^sup>2);
              h_dist = sqrt ((lm_x left - lm_x right)\<^sup>2 + (lm_y left - lm_y right)\<^sup>2)
          in if h_dist < 0.001 then Inr 1.0 else Inr (v_dist / h_dist))))))"

text \<open>\<^verbatim>\<open>calculate_mouth_aspect_ratio(landmarks)\<close>.\<close>

definition calculate_mouth_aspect_ratio :: "FaceLandmark list \<Rightarrow> py_error + real" where
  "calculate_mouth_aspect_ratio landmarks =
     (if landmarks = [] then Inr 0.0
      else
        bind_py (nth_py landmarks UPPER_LIP) (\<lambda>upper.
        bind_py (nth_py landmarks LOWER_LIP) (\<lambda>lower.
        bind_py (nth_py landmarks LEFT_MOUTH) (\<lambda>left.
        bind_py (nth_py landmarks RIGHT_MOUTH) (\<lambda>right.
          let v_dist = sqrt ((lm_x upper - lm_x lower)\<^sup>2 + (lm_y upper - lm_y lower)\<^sup>2);
              h_dist = sqrt ((lm_x left - lm_x right)\<^sup>2 + (lm_y left - lm_y right)\<^sup>2)
          in if h_dist < 0.001 then Inr 0.0 else Inr (v_dist / h_dist))))))"

subsection \<open>The gesture classifier\<close>

text \<open>The two calls of \<^verbatim>\<open>calculate_eye_aspect_ratio\<close> that \<^verbatim>\<open>detect_gesture\<close>
  makes, with their index lists.\<close>

definition left_ear_of :: "FaceLandmark list \<Rightarrow> py_error + real" where
  "left_ear_of landmarks =
     calculate_eye_aspect_ratio landmarks
       [LEFT_EYE_TOP, LEFT_EYE_BOTTOM, LEFT_EYE_INNER, LEFT_EYE_OUTER]"

definition right_ear_of :: "FaceLandmark list \<Rightarrow> py_error + real" where
  "right_ear_of landmarks =
     calculate_eye_aspect_ratio landmarks
       [RIGHT_EYE_TOP, RIGHT_EYE_BOTTOM, RIGHT_EYE_INNER, RIGHT_EYE_OUTER]"

text \<open>\<^verbatim>\<open>detect_gesture(landmarks)\<close>: returns the gesture and the updated object.
  \<open>left_frames\<close>, \<open>right_frames\<close> and \<open>mouth_frames\<close> are the values the three
  \<^verbatim>\<open>if\<close>/\<^verbatim>\<open>else\<close> statements assign to the counters, and \<open>t3\<close> is the
  object after them, on which the cooldown and the counters are then tested.\<close>

definition detect_gesture :: "FaceTracker \<Rightarrow> FaceLandmark list \<Rightarrow> py_error + (string \<times> FaceTracker)" where
  "detect_gesture t landmarks =
     (if landmarks = [] then Inr (''none'', t)
      else
        bind_py (left_ear_of landmarks) (\<lambda>left_ear.
        bind_py (right_ear_of landmarks) (\<lambda>right_ear.
        bind_py (calculate_mouth_aspect_ratio landmarks) (\<lambda>mar.
          let left_closed = left_ear < 0.15;
              right_closed = right_ear < 0.15;
              left_frames = (if left_closed then left_eye_closed_frames t + 1 else 0);
              right_frames = (if right_closed then right_eye_closed_frames t + 1 else 0);
              mouth_frames = (if mar > 0.4 then mouth_open_frames t + 1 else 0);
              t3 = t\<lparr>left_eye_closed_frames := left_frames,
                     right_eye_closed_frames := right_frames,
                     mouth_open_frames := mouth_frames\<rparr>
          in
            if gesture_cooldown t3 > 0
            then Inr (''none'', t3\<lparr>gesture_cooldown := gesture_cooldown t3 - 1\<rparr>)
            else if left_eye_closed_frames t3 > 2 \<and> right_eye_closed_frames t3 > 2
            then Inr (''blink_both'', t3\<lparr>gesture_cooldown := 15\<rparr>)
            else if left_eye_closed_frames t3 > 3 \<and> right_eye_closed_frames t3 = 0
            then Inr (''blink_left'', t3\<lparr>gesture_cooldown := 15\<rparr>)
            else if right_eye_closed_frames t3 > 3 \<and> left_eye_closed_frames t3 = 0
            then Inr (''blink_right'', t3\<lparr>gesture_cooldown := 15\<rparr>)
            else if mouth_open_frames t3 > 5
            then Inr (''mouth_open'', t3\<lparr>gesture_cooldown := 20\<rparr>)
            else Inr (''none'', t3)))))"

text \<open>The classifier on consecutive face-detected frames: one call of
  \<^verbatim>\<open>detect_gesture\<close> per landmark list, the object threaded through; the
  gestures are collected in frame order. An exception ends the run.\<close>

fun detect_gestures :: "FaceTracker \<Rightarrow> FaceLandmark list list \<Rightarrow> py_error + (string list \<times> FaceTracker)" where
  "detect_gestures t [] = Inr ([], t)"
| "detect_gestures t (landmarks # rest) =
     bind_py (detect_gesture t landmarks) (\<lambda>(gesture, t').
     bind_py (detect_gestures t' rest) (\<lambda>(gestures, t'').
       Inr (gesture # gestures, t'')))"

subsection \<open>The tracking point\<close>

text \<open>\<^verbatim>\<open>get_tracking_point(landmarks, frame_width, frame_height)\<close>: \<open>None\<close> is the
  pair \<^verbatim>\<open>(None, None)\<close>. The landmarks are read in the order of the source's
  expressions.\<close>

definition get_tracking_point :: "FaceTracker \<Rightarrow> FaceLandmark list \<Rightarrow> nat \<Rightarrow> nat \<Rightarrow> py_error + (real \<times> real) option" where
  "get_tracking_point t landmarks fw fh =
     (if landmarks = [] then Inr None
      else if mode t = ''nose'' then
        bind_py (nth_py landmarks NOSE_TIP) (\<lambda>point.
          Inr (Some (lm_x point, lm_y point)))
      else if mode t = ''head'' then
        bind_py (nth_py landmarks FOREHEAD) (\<lambda>forehead.
        bind_py (nth_py landmarks CHIN) (\<lambda>chin.
          Inr (Some ((lm_x forehead + lm_x chin) / 2, (lm_y forehead + lm_y chin) / 2))))
      else if mode t = ''eyes'' then
        bind_py (nth_py landmarks LEFT_EYE_INNER) (\<lambda>li.
        bind_py (nth_py landmarks LEFT_EYE_OUTER) (\<lambda>lo.
        bind_py (nth_py landmarks RIGHT_EYE_INNER) (\<lambda>ri.
        bind_py (nth_py landmarks RIGHT_EYE_OUTER) (\<lambda>ro.
          let left_x = (lm_x li + lm_x lo) / 2;
              left_y = (lm_y li + lm_y lo) / 2;
              right_x = (lm_x ri + lm_x ro) / 2;
              right_y = (lm_y ri + lm_y ro) / 2
          in Inr (Some ((left_x + right_x) / 2, (left_y + right_y) / 2))))))
      else if mode t = ''mouth'' then
        bind_py (nth_py landmarks LEFT_MOUTH) (\<lambda>lmo.
        bind_py (nth_py landmarks RIGHT_MOUTH) (\<lambda>rmo.
        bind_py (nth_py landmarks UPPER_LIP) (\<lambda>upper.
        bind_py (nth_py landmarks LOWER_LIP) (\<lambda>lower.
          Inr (Some ((lm_x lmo + lm_x rmo) / 2, (lm_y upper + lm_y lower) / 2))))))
      else Inr (Some (0.5, 0.5)))"

subsection \<open>One frame\<close>

text \<open>
  What the outside world delivers while one frame is processed: \<open>ret\<close> and the image
  size from \<^verbatim>\<open>self.cap.read()\<close>, \<open>face_landmarks\<close> from
  \<^verbatim>\<open>detect_for_video\<close>, \<open>faces\<close> from the Haar cascade's
  \<^verbatim>\<open>detectMultiScale\<close> (boxes \<open>(x, y, w, h)\<close> in pixels), \<open>now\<close> from
  \<^verbatim>\<open>time.time()\<close>, and \<open>quit_key\<close> for \<^verbatim>\<open>cv2.waitKey(1) & 0xFF == ord('q')\<close>.
\<close>

record Frame =
  ret :: bool
  frame_width :: nat
  frame_height :: nat
  face_landmarks :: "FaceLandmark list list"
  faces :: "(int \<times> int \<times> int \<times> int) list"
  now :: real
  quit_key :: bool

text \<open>The dictionary \<^verbatim>\<open>result\<close>: its keys \<^verbatim>\<open>x\<close>, \<^verbatim>\<open>y\<close>, \<^verbatim>\<open>gesture\<close>,
  \<^verbatim>\<open>face_detected\<close>, \<^verbatim>\<open>fps\<close> are the fields below.\<close>

record TrackingRecord =
  rec_x :: real
  rec_y :: real
  rec_gesture :: string
  rec_face_detected :: bool
  rec_fps :: real

text \<open>
  \<^verbatim>\<open>process_frame()\<close>: the record returned (\<open>None\<close> for \<^verbatim>\<open>return None\<close>) and the
  updated object. \<open>detect\<close> is the part between the construction of
  \<^verbatim>\<open>result\<close> and the frame-rate computation: the MediaPipe branch or the Haar
  branch. Drawing on the preview image changes neither the object nor the record and is
  left out; the preview's quit key is kept.
\<close>

definition process_frame :: "FaceTracker \<Rightarrow> Frame \<Rightarrow> py_error + (TrackingRecord option \<times> FaceTracker)" where
  "process_frame t fr =
     (if \<not> cap_opened t then Inr (None, t)
      else if \<not> ret fr then Inr (None, t)
      else
        let t1 = t\<lparr>frame_count := frame_count t + 1, timestamp_ms := timestamp_ms t + 33\<rparr>;
            result = \<lparr>rec_x = 0.5, rec_y = 0.5, rec_gesture = ''none'',
                      rec_face_detected = False, rec_fps = 0.0\<rparr>;
            detect =
              (if use_mediapipe t1 then
                 (if face_landmarks fr \<noteq> [] then
                    let raw_landmarks = hd (face_landmarks fr);
                        landmarks = map (\<lambda>lm. FaceLandmark (lm_x lm) (lm_y lm) (lm_z lm)) raw_landmarks
                    in bind_py (get_tracking_point t1 landmarks (frame_width fr) (frame_height fr))
                         (\<lambda>point. case point of
                            None \<Rightarrow> Inr (result, t1)
                          | Some (x, y) \<Rightarrow>
                              let t2 = t1\<lparr>smooth_x := smooth_x t1 * smoothing_factor t1
                                                        + x * (1 - smoothing_factor t1),
                                          smooth_y := smooth_y t1 * smoothing_factor t1
                                                        + y * (1 - smoothing_factor t1)\<rparr>;
                                  result2 = result\<lparr>rec_x := smooth_x t2, rec_y := smooth_y t2,
                                                   rec_face_detected := True\<rparr>
                              in bind_py (detect_gesture t2 landmarks) (\<lambda>(gesture, t3).
                                   Inr (result2\<lparr>rec_gesture := gesture\<rparr>, t3)))
                  else Inr (result, t1))
               else
                 (case faces fr of
                    [] \<Rightarrow> Inr (result, t1)
                  | (x, y, w, h) # _ \<Rightarrow>
                      let center_x = (real_of_int x + real_of_int w / 2) / real (frame_width fr);
                          center_y = (real_of_int y + real_of_int h / 2) / real (frame_height fr);
                          t2 = t1\<lparr>smooth_x := smooth_x t1 * smoothing_factor t1
                                                + center_x * (1 - smoothing_factor t1),
                                  smooth_y := smooth_y t1 * smoothing_factor t1
                                                + center_y * (1 - smoothing_factor t1)\<rparr>
                      in Inr (result\<lparr>rec_x := smooth_x t2, rec_y := smooth_y t2,
                                     rec_face_detected := True\<rparr>, t2)))
        in bind_py detect (\<lambda>(result, t').
             let elapsed = now fr - start_time t';
                 result' = (if elapsed > 0
                            then result\<lparr>rec_fps := real_of_int (frame_count t') / elapsed\<rparr>
                            else result)
             in if show_preview t' \<and> quit_key fr then Inr (None, t')
                else Inr (Some result', t')))"

text \<open>
  The raw point of a frame: what \<^verbatim>\<open>process_frame\<close> feeds into the smoothing, that
  is the value of \<^verbatim>\<open>get_tracking_point\<close> on the first face's landmarks in the
  MediaPipe branch and the centre of the first box in the Haar branch; \<open>None\<close> when no
  face is detected. It is the vocabulary in which the properties of the smoothing are
  stated; \<open>process_frame\<close> above does not use it.
\<close>

definition raw_point :: "FaceTracker \<Rightarrow> Frame \<Rightarrow> py_error + (real \<times> real) option" where
  "raw_point t fr =
     (if use_mediapipe t then
        (if face_landmarks fr \<noteq> []
         then get_tracking_point t (hd (face_landmarks fr)) (frame_width fr) (frame_height fr)
         else Inr None)
      else
        (case faces fr of
           [] \<Rightarrow> Inr None
         | (x, y, w, h) # _ \<Rightarrow>
             Inr (Some ((real_of_int x + real_of_int w / 2) / real (frame_width fr),
                        (real_of_int y + real_of_int h / 2) / real (frame_height fr)))))"

subsection \<open>The main loop\<close>

text \<open>
  The \<^verbatim>\<open>while True\<close> loop of \<^verbatim>\<open>run\<close> over the frames the camera delivers: the
  records printed, in order, and the object when the loop stops. \<^verbatim>\<open>process_frame\<close>
  returning \<^verbatim>\<open>None\<close> breaks the loop; the end of the list is the point up to which
  the run is observed.
\<close>

fun run_loop :: "FaceTracker \<Rightarrow> Frame list \<Rightarrow> py_error + (TrackingRecord list \<times> FaceTracker)" where
  "run_loop t [] = Inr ([], t)"
| "run_loop t (fr # frs) =
     bind_py (process_frame t fr) (\<lambda>(result, t').
       case result of
         None \<Rightarrow> Inr ([], t')
       | Some r \<Rightarrow>
           bind_py (run_loop t' frs) (\<lambda>(rs, t''). Inr (r # rs, t'')))"


subsection \<open>Vocabulary for the gesture properties\<close>

text \<open>
  The gesture sequence in which \<open>g\<close> is emitted on frame \<open>first\<close> and then on every
  \<open>period\<close>-th frame after it, and \<^verbatim>\<open>none\<close> on every other frame; frames are
  numbered from 1 and \<open>n\<close> frames are listed.
\<close>

definition periodic :: "string \<Rightarrow> nat \<Rightarrow> nat \<Rightarrow> nat \<Rightarrow> string list" where
  "periodic g first period n =
     map (\<lambda>i. if first \<le> i + 1 \<and> (i + 1 - first) mod period = 0 then g else ''none'') [0..<n]"

subsection \<open>Concrete inputs\<close>

text \<open>
  Landmark lists of the size MediaPipe delivers (478 points) on which the properties are
  instantiated. All points are at the origin except those named: in \<open>face_both_closed\<close>
  the outer corner of each eye is moved one unit to the right, so each eye has width 1 and
  height 0; \<open>face_left_closed\<close> also lifts the right eye's upper lid by one unit, which
  opens the right eye; \<open>face_right_closed\<close> is its mirror image; \<open>face_mouth_open\<close> has
  both eyes open and a mouth of width 1 and height 1;
  \<open>face_mouth_open_left_closed\<close> has that mouth, the left eye closed and the right eye
  open. \<open>face_at_origin\<close> is the degenerate list with every point at the origin.
\<close>

definition face_at_origin :: "FaceLandmark list" where
  "face_at_origin = replicate 478 (FaceLandmark 0 0 0)"

definition face_both_closed :: "FaceLandmark list" where
  "face_both_closed =
     (replicate 478 (FaceLandmark 0 0 0))
       [LEFT_EYE_OUTER := FaceLandmark 1 0 0, RIGHT_EYE_OUTER := FaceLandmark 1 0 0]"

definition face_left_closed :: "FaceLandmark list" where
  "face_left_closed =
     (replicate 478 (FaceLandmark 0 0 0))
       [LEFT_EYE_OUTER := FaceLandmark 1 0 0, RIGHT_EYE_OUTER := FaceLandmark 1 0 0,
        RIGHT_EYE_TOP := FaceLandmark 0 1 0]"

definition face_right_closed :: "FaceLandmark list" where
  "face_right_closed =
     (replicate 478 (FaceLandmark 0 0 0))
       [LEFT_EYE_OUTER := FaceLandmark 1 0 0, RIGHT_EYE_OUTER := FaceLandmark 1 0 0,
        LEFT_EYE_TOP := FaceLandmark 0 1 0]"

definition face_mouth_open :: "FaceLandmark list" where
  "face_mouth_open =
     (replicate 478 (FaceLandmark 0 0 0))
       [LEFT_EYE_OUTER := FaceLandmark 1 0 0, RIGHT_EYE_OUTER := FaceLandmark 1 0 0,
        LEFT_EYE_TOP := FaceLandmark 0 1 0, RIGHT_EYE_TOP := FaceLandmark 0 1 0,
        LOWER_LIP := FaceLandmark 0 1 0, RIGHT_MOUTH := FaceLandmark 1 0 0]"

definition face_mouth_open_left_closed :: "FaceLandmark list" where
  "face_mouth_open_left_closed =
     (replicate 478 (FaceLandmark 0 0 0))
       [LEFT_EYE_OUTER := FaceLandmark 1 0 0, RIGHT_EYE_OUTER := FaceLandmark 1 0 0,
        RIGHT_EYE_TOP := FaceLandmark 0 1 0,
        LOWER_LIP := FaceLandmark 0 1 0, RIGHT_MOUTH := FaceLandmark 1 0 0]"

text \<open>
  Objects and frames on which the properties of \<open>process_frame\<close> are instantiated.
  \<open>tracker_haar\<close> is the object of an installation without MediaPipe after
  \<^verbatim>\<open>start()\<close> has opened the camera and \<^verbatim>\<open>main\<close> has stored
  \<^verbatim>\<open>--smoothing 0.5\<close>; \<open>tracker_mediapipe\<close> is the same with the landmarker.
  \<open>frame_box\<close> is a 10 by 10 image in which the Haar cascade finds the box
  \<open>(7, 1, 2, 2)\<close>, whose centre is the raw point \<open>(0.8, 0.2)\<close>; \<open>frame_empty\<close> is
  the same image with no face found; \<open>frame_landmarks lms\<close> is a 640 by 480 image on
  which the landmarker returns the one face \<open>lms\<close>.
\<close>

definition tracker_haar :: FaceTracker where
  "tracker_haar =
     (FaceTracker_init ''nose'' 0 False False 0)\<lparr>cap_opened := True, smoothing_factor := 0.5\<rparr>"

definition tracker_mediapipe :: FaceTracker where
  "tracker_mediapipe =
     (FaceTracker_init ''nose'' 0 False True 0)\<lparr>cap_opened := True, smoothing_factor := 0.5\<rparr>"

definition frame_box :: Frame where
  "frame_box = \<lparr>ret = True, frame_width = 10, frame_height = 10, face_landmarks = [],
                 faces = [(7, 1, 2, 2)], now = 1, quit_key = False\<rparr>"

definition frame_empty :: Frame where
  "frame_empty = \<lparr>ret = True, frame_width = 10, frame_height = 10, face_landmarks = [],
                   faces = [], now = 1, quit_key = False\<rparr>"

definition frame_landmarks :: "FaceLandmark list \<Rightarrow> Frame" where
  "frame_landmarks lms = \<lparr>ret = True, frame_width = 640, frame_height = 480,
                           face_landmarks = [lms], faces = [], now = 1, quit_key = False\<rparr>"

section \<open>Basic facts about the embedding\<close>

lemmas landmark_indices =
  NOSE_TIP_def LEFT_EYE_OUTER_def LEFT_EYE_INNER_def RIGHT_EYE_OUTER_def
  RIGHT_EYE_INNER_def LEFT_EYE_TOP_def LEFT_EYE_BOTTOM_def RIGHT_EYE_TOP_def
  RIGHT_EYE_BOTTOM_def UPPER_LIP_def LOWER_LIP_def LEFT_MOUTH_def RIGHT_MOUTH_def
  CHIN_def FOREHEAD_def

subsection \<open>Errors, indexing and the aspect ratios\<close>

lemma bind_py_Inr [simp]: "bind_py (Inr v) f = f v"
  by (simp add: bind_py_def)

lemma bind_py_Inl [simp]: "bind_py (Inl e) f = Inl e"
  by (simp add: bind_py_def)

lemma nth_py_in_range: "i < length xs \<Longrightarrow> nth_py xs i = Inr (xs ! i)"
  by (simp add: nth_py_def)

lemma nth_py_Inr_iff: "nth_py xs i = Inr v \<longleftrightarrow> i < length xs \<and> v = xs ! i"
  by (auto simp: nth_py_def)

lemma left_ear_of_total:
  "RIGHT_EYE_TOP < length lms \<Longrightarrow> \<exists>l. left_ear_of lms = Inr l"
  by (simp add: left_ear_of_def calculate_eye_aspect_ratio_def nth_py_def landmark_indices Let_def)

lemma right_ear_of_total:
  "RIGHT_EYE_TOP < length lms \<Longrightarrow> \<exists>r. right_ear_of lms = Inr r"
  by (simp add: right_ear_of_def calculate_eye_aspect_ratio_def nth_py_def landmark_indices Let_def)

lemma mar_total:
  "RIGHT_EYE_TOP < length lms \<Longrightarrow> \<exists>m. calculate_mouth_aspect_ratio lms = Inr m"
  by (simp add: calculate_mouth_aspect_ratio_def nth_py_def landmark_indices Let_def)

lemma right_ear_of_populated:
  "lms \<noteq> [] \<Longrightarrow> right_ear_of lms = Inr r \<Longrightarrow> RIGHT_EYE_TOP < length lms"
  by (auto simp: right_ear_of_def calculate_eye_aspect_ratio_def nth_py_def landmark_indices bind_py_def split: if_splits sum.splits)

lemma left_ear_of_empty: "left_ear_of [] = Inr 1"
  by (simp add: left_ear_of_def calculate_eye_aspect_ratio_def)

lemma right_ear_of_empty: "right_ear_of [] = Inr 1"
  by (simp add: right_ear_of_def calculate_eye_aspect_ratio_def)

lemma mar_empty: "calculate_mouth_aspect_ratio [] = Inr 0"
  by (simp add: calculate_mouth_aspect_ratio_def)

lemma detect_gestures_append:
  "detect_gestures t (xs @ ys) =
     bind_py (detect_gestures t xs) (\<lambda>(gs, t').
     bind_py (detect_gestures t' ys) (\<lambda>(gs', t'').
       Inr (gs @ gs', t'')))"
proof (induction xs arbitrary: t)
  case Nil
  show ?case by (cases "detect_gestures t ys") (auto simp: bind_py_def)
next
  case (Cons x xs)
  show ?case
  proof (cases "detect_gesture t x")
    case (Inl e)
    then show ?thesis by simp
  next
    case (Inr p)
    obtain g t1 where p: "p = (g, t1)" by (cases p)
    show ?thesis
      using Inr p Cons.IH [of t1]
      by (auto simp: bind_py_def split: sum.splits)
  qed
qed




lemma detect_gesture_unfold:
  fixes t :: FaceTracker and l r m :: real
  defines "nl \<equiv> (if l < 0.15 then left_eye_closed_frames t + 1 else 0)"
    and "nr \<equiv> (if r < 0.15 then right_eye_closed_frames t + 1 else 0)"
    and "nm \<equiv> (if m > 0.4 then mouth_open_frames t + 1 else 0)"
  defines "t3 \<equiv> t\<lparr>left_eye_closed_frames := nl, right_eye_closed_frames := nr,
                    mouth_open_frames := nm\<rparr>"
  assumes "lms \<noteq> []"
    and "left_ear_of lms = Inr l"
    and "right_ear_of lms = Inr r"
    and "calculate_mouth_aspect_ratio lms = Inr m"
  shows "detect_gesture t lms =
     (if gesture_cooldown t > 0
        then Inr (''none'', t3\<lparr>gesture_cooldown := gesture_cooldown t - 1\<rparr>)
      else if nl > 2 \<and> nr > 2 then Inr (''blink_both'', t3\<lparr>gesture_cooldown := 15\<rparr>)
      else if nl > 3 \<and> nr = 0 then Inr (''blink_left'', t3\<lparr>gesture_cooldown := 15\<rparr>)
      else if nr > 3 \<and> nl = 0 then Inr (''blink_right'', t3\<lparr>gesture_cooldown := 15\<rparr>)
      else if nm > 5 then Inr (''mouth_open'', t3\<lparr>gesture_cooldown := 20\<rparr>)
      else Inr (''none'', t3))"
  unfolding detect_gesture_def t3_def nl_def nr_def nm_def
  using assms(5-8) by (simp add: Let_def)


lemma detect_gesture_step:
  fixes t :: FaceTracker and l r m :: real
  defines "nl \<equiv> (if l < 0.15 then left_eye_closed_frames t + 1 else 0)"
    and "nr \<equiv> (if r < 0.15 then right_eye_closed_frames t + 1 else 0)"
    and "nm \<equiv> (if m > 0.4 then mouth_open_frames t + 1 else 0)"
  assumes "lms \<noteq> []"
    and "left_ear_of lms = Inr l"
    and "right_ear_of lms = Inr r"
    and "calculate_mouth_aspect_ratio lms = Inr m"
  shows "\<exists>g d. detect_gesture t lms =
       Inr (g, t\<lparr>left_eye_closed_frames := nl, right_eye_closed_frames := nr,
                mouth_open_frames := nm, gesture_cooldown := d\<rparr>) \<and>
     (if gesture_cooldown t > 0 then g = ''none'' \<and> d = gesture_cooldown t - 1
      else if nl > 2 \<and> nr > 2 then g = ''blink_both'' \<and> d = 15
      else if nl > 3 \<and> nr = 0 then g = ''blink_left'' \<and> d = 15
      else if nr > 3 \<and> nl = 0 then g = ''blink_right'' \<and> d = 15
      else if nm > 5 then g = ''mouth_open'' \<and> d = 20
      else g = ''none'' \<and> d = gesture_cooldown t)"
proof -
  define t3 where "t3 = t\<lparr>left_eye_closed_frames := nl, right_eye_closed_frames := nr,
                          mouth_open_frames := nm\<rparr>"
  have upd: "\<And>d. t\<lparr>left_eye_closed_frames := nl, right_eye_closed_frames := nr,
                mouth_open_frames := nm, gesture_cooldown := d\<rparr> = t3\<lparr>gesture_cooldown := d\<rparr>"
    by (simp add: t3_def)
  have keep: "t3 = t3\<lparr>gesture_cooldown := gesture_cooldown t\<rparr>"
    by (simp add: t3_def)
  have dg: "detect_gesture t lms =
     (if gesture_cooldown t > 0
        then Inr (''none'', t3\<lparr>gesture_cooldown := gesture_cooldown t - 1\<rparr>)
      else if nl > 2 \<and> nr > 2 then Inr (''blink_both'', t3\<lparr>gesture_cooldown := 15\<rparr>)
      else if nl > 3 \<and> nr = 0 then Inr (''blink_left'', t3\<lparr>gesture_cooldown := 15\<rparr>)
      else if nr > 3 \<and> nl = 0 then Inr (''blink_right'', t3\<lparr>gesture_cooldown := 15\<rparr>)
      else if nm > 5 then Inr (''mouth_open'', t3\<lparr>gesture_cooldown := 20\<rparr>)
      else Inr (''none'', t3\<lparr>gesture_cooldown := gesture_cooldown t\<rparr>))"
    unfolding t3_def nl_def nr_def nm_def keep [symmetric, unfolded t3_def nl_def nr_def nm_def]
    by (rule detect_gesture_unfold [OF assms(4-7)])
  consider (cool) "gesture_cooldown t > 0"
    | (both) "\<not> gesture_cooldown t > 0" "nl > 2 \<and> nr > 2"
    | (left) "\<not> gesture_cooldown t > 0" "\<not> (nl > 2 \<and> nr > 2)" "nl > 3 \<and> nr = 0"
    | (right) "\<not> gesture_cooldown t > 0" "\<not> (nl > 2 \<and> nr > 2)" "\<not> (nl > 3 \<and> nr = 0)"
        "nr > 3 \<and> nl = 0"
    | (mouth) "\<not> gesture_cooldown t > 0" "\<not> (nl > 2 \<and> nr > 2)" "\<not> (nl > 3 \<and> nr = 0)"
        "\<not> (nr > 3 \<and> nl = 0)" "nm > 5"
    | (none) "\<not> gesture_cooldown t > 0" "\<not> (nl > 2 \<and> nr > 2)" "\<not> (nl > 3 \<and> nr = 0)"
        "\<not> (nr > 3 \<and> nl = 0)" "\<not> nm > 5"
    by blast
  then show ?thesis
  proof cases
    case cool
    then show ?thesis unfolding upd dg by (simp only: if_True if_False simp_thms) blast
  next
    case both
    then show ?thesis unfolding upd dg by (simp only: if_True if_False simp_thms) blast
  next
    case left
    then show ?thesis unfolding upd dg by (simp only: if_True if_False simp_thms) blast
  next
    case right
    then show ?thesis unfolding upd dg by (simp only: if_True if_False simp_thms) blast
  next
    case mouth
    then show ?thesis unfolding upd dg by (simp only: if_True if_False simp_thms) blast
  next
    case none
    then show ?thesis unfolding upd dg by (simp only: if_True if_False simp_thms) blast
  qed
qed

lemma detect_gesture_frame:
  assumes "detect_gesture t lms = Inr (g, t')"
  shows "\<exists>a b c d. t' = t\<lparr>left_eye_closed_frames := a, right_eye_closed_frames := b,
     mouth_open_frames := c, gesture_cooldown := d\<rparr>"
proof (cases "lms = []")
  case True
  with assms have "t' = t" by (simp add: detect_gesture_def)
  then have "t' = t\<lparr>left_eye_closed_frames := left_eye_closed_frames t,
     right_eye_closed_frames := right_eye_closed_frames t,
     mouth_open_frames := mouth_open_frames t, gesture_cooldown := gesture_cooldown t\<rparr>"
    by simp
  then show ?thesis by blast
next
  case False
  from assms False obtain l r m where ears: "left_ear_of lms = Inr l"
    "right_ear_of lms = Inr r" "calculate_mouth_aspect_ratio lms = Inr m"
    unfolding detect_gesture_def bind_py_def by (simp split: sum.splits)
  from detect_gesture_step [OF False ears, of t] assms show ?thesis
    by auto
qed


subsection \<open>Runs of the classifier under a constant condition\<close>

lemma periodic_0: "periodic g first period 0 = []"
  by (simp add: periodic_def)

lemma periodic_Suc:
  "periodic g first period (Suc n) =
     periodic g first period n @
       [if first \<le> n + 1 \<and> (n + 1 - first) mod period = 0 then g else ''none'']"
  by (simp add: periodic_def)

lemma detect_gestures_snoc:
  assumes "detect_gestures t fs = Inr (gs, t1)"
    and "detect_gesture t1 f = Inr (g, t2)"
  shows "detect_gestures t (fs @ [f]) = Inr (gs @ [g], t2)"
  using assms by (simp add: detect_gestures_append)


lemma periodic_step:
  fixes cd d :: int and n k c :: nat
  assumes cdn: "cd = (if n < k then 0 else int c - int ((n - k) mod Suc c))"
    and dec: "if cd > 0 then g' = ''none'' \<and> d = cd - 1
              else if k \<le> n + 1 then g' = g \<and> d = int c
              else g' = ''none'' \<and> d = cd"
  shows "g' = (if k \<le> n + 1 \<and> (n + 1 - k) mod Suc c = 0 then g else ''none'') \<and>
     d = (if Suc n < k then 0 else int c - int ((Suc n - k) mod Suc c))"
proof -
  consider (early) "Suc n < k" | (first) "Suc n = k" | (later) "k \<le> n"
    by linarith
  then show ?thesis
  proof cases
    case early
    with cdn dec show ?thesis by simp
  next
    case first
    then have "n < k" "k \<le> n + 1" "n + 1 - k = 0" "Suc n - k = 0" by simp_all
    with cdn dec show ?thesis by simp
  next
    case later
    define j where "j = (n - k) mod Suc c"
    have j: "j \<le> c" unfolding j_def using mod_less_divisor [of "Suc c" "n - k"] by simp
    from later have suc: "n + 1 - k = Suc (n - k)" "Suc n - k = Suc (n - k)" by simp_all
    have next_mod: "Suc (n - k) mod Suc c = (if j = c then 0 else Suc j)"
      by (simp add: mod_Suc j_def)
    from later cdn have cd: "cd = int c - int j" by (simp add: j_def)
    from later have k1: "k \<le> n + 1" "\<not> Suc n < k" by simp_all
    show ?thesis
    proof (cases "j = c")
      case True
      with cd dec k1 have "g' = g" "d = int c" by simp_all
      with True k1 show ?thesis unfolding suc next_mod by simp
    next
      case False
      with j have "j < c" by simp
      with cd dec have "g' = ''none''" "d = int c - int j - 1" by simp_all
      with False k1 show ?thesis unfolding suc next_mod by simp
    qed
  qed
qed

lemma both_closed_run:
  assumes fresh: "left_eye_closed_frames t = 0" "right_eye_closed_frames t = 0"
      "mouth_open_frames t = 0" "gesture_cooldown t = 0"
    and closed: "\<forall>lms\<in>set fs. \<exists>l r. left_ear_of lms = Inr l \<and> l < 0.15 \<and>
      right_ear_of lms = Inr r \<and> r < 0.15"
  shows "\<exists>t'. detect_gestures t fs = Inr (periodic ''blink_both'' 3 16 (length fs), t') \<and>
     left_eye_closed_frames t' = int (length fs) \<and>
     right_eye_closed_frames t' = int (length fs) \<and>
     0 \<le> mouth_open_frames t' \<and> mouth_open_frames t' \<le> int (length fs) \<and>
     gesture_cooldown t' = (if length fs < 3 then 0 else 15 - int ((length fs - 3) mod 16))"
  using closed
proof (induction fs rule: rev_induct)
  case Nil
  show ?case using fresh by (simp add: periodic_0)
next
  case (snoc f fs)
  define n where "n = length fs"
  from snoc obtain t1 where run: "detect_gestures t fs = Inr (periodic ''blink_both'' 3 16 n, t1)"
    and inv: "left_eye_closed_frames t1 = int n" "right_eye_closed_frames t1 = int n"
      "0 \<le> mouth_open_frames t1" "mouth_open_frames t1 \<le> int n"
      "gesture_cooldown t1 = (if n < 3 then 0 else 15 - int ((n - 3) mod 16))"
    unfolding n_def by auto
  from snoc.prems obtain l r where ears: "left_ear_of f = Inr l" "l < 0.15"
      "right_ear_of f = Inr r" "r < 0.15"
    by auto
  have ne: "f \<noteq> []" using ears(1,2) by (auto simp: left_ear_of_empty)
  from right_ear_of_populated [OF ne ears(3)] mar_total obtain m
    where mar: "calculate_mouth_aspect_ratio f = Inr m" by blast
  define nm where "nm = (if m > 0.4 then mouth_open_frames t1 + 1 else 0)"
  have nm: "0 \<le> nm" "nm \<le> int n + 1"
    using inv(3,4) by (simp_all add: nm_def)
  from detect_gesture_step [OF ne ears(1) ears(3) mar, of t1] obtain g d
    where step: "detect_gesture t1 f =
        Inr (g, t1\<lparr>left_eye_closed_frames := int n + 1, right_eye_closed_frames := int n + 1,
              mouth_open_frames := nm, gesture_cooldown := d\<rparr>)"
      and dec0: "(if gesture_cooldown t1 > 0 then g = ''none'' \<and> d = gesture_cooldown t1 - 1
        else if int n + 1 > 2 \<and> int n + 1 > 2 then g = ''blink_both'' \<and> d = 15
        else if int n + 1 > 3 \<and> int n + 1 = 0 then g = ''blink_left'' \<and> d = 15
        else if int n + 1 > 3 \<and> int n + 1 = 0 then g = ''blink_right'' \<and> d = 15
        else if nm > 5 then g = ''mouth_open'' \<and> d = 20
        else g = ''none'' \<and> d = gesture_cooldown t1)"
    unfolding nm_def [symmetric] inv(1,2) if_P [OF ears(2)] if_P [OF ears(4)] by blast
  have dec: "if gesture_cooldown t1 > 0 then g = ''none'' \<and> d = gesture_cooldown t1 - 1
              else if 3 \<le> n + 1 then g = ''blink_both'' \<and> d = int 15
              else g = ''none'' \<and> d = gesture_cooldown t1"
  proof (cases "3 \<le> n + 1")
    case True
    then have "int n + 1 > 2" by simp
    with dec0 True show ?thesis by simp
  next
    case False
    then have "\<not> int n + 1 > 2" "\<not> int n + 1 = 0" "\<not> nm > 5" using nm by simp_all
    with dec0 False show ?thesis by simp
  qed
  have cdn: "gesture_cooldown t1 = (if n < 3 then 0 else int 15 - int ((n - 3) mod Suc 15))"
    using inv(5) by simp
  from periodic_step [OF cdn dec]
  have g: "g = (if 3 \<le> n + 1 \<and> (n + 1 - 3) mod 16 = 0 then ''blink_both'' else ''none'')"
    and d: "d = (if Suc n < 3 then 0 else 15 - int ((Suc n - 3) mod 16))"
    by simp_all
  show ?case
    unfolding length_append_singleton n_def [symmetric] periodic_Suc
    using detect_gestures_snoc [OF run step] nm g d
    by (intro exI [of _ "t1\<lparr>left_eye_closed_frames := int n + 1, right_eye_closed_frames := int n + 1,
              mouth_open_frames := nm, gesture_cooldown := d\<rparr>"]) simp
qed


lemma left_closed_run:
  assumes fresh: "left_eye_closed_frames t = 0" "right_eye_closed_frames t = 0"
      "mouth_open_frames t = 0" "gesture_cooldown t = 0"
    and wink: "\<forall>lms\<in>set fs. \<exists>l r. left_ear_of lms = Inr l \<and> l < 0.15 \<and>
      right_ear_of lms = Inr r \<and> \<not> r < 0.15"
  shows "\<exists>t'. detect_gestures t fs = Inr (periodic ''blink_left'' 4 16 (length fs), t') \<and>
     left_eye_closed_frames t' = int (length fs) \<and>
     right_eye_closed_frames t' = 0 \<and>
     0 \<le> mouth_open_frames t' \<and> mouth_open_frames t' \<le> int (length fs) \<and>
     gesture_cooldown t' = (if length fs < 4 then 0 else 15 - int ((length fs - 4) mod 16))"
  using wink
proof (induction fs rule: rev_induct)
  case Nil
  show ?case using fresh by (simp add: periodic_0)
next
  case (snoc f fs)
  define n where "n = length fs"
  from snoc obtain t1 where run: "detect_gestures t fs = Inr (periodic ''blink_left'' 4 16 n, t1)"
    and inv: "left_eye_closed_frames t1 = int n" "right_eye_closed_frames t1 = 0"
      "0 \<le> mouth_open_frames t1" "mouth_open_frames t1 \<le> int n"
      "gesture_cooldown t1 = (if n < 4 then 0 else 15 - int ((n - 4) mod 16))"
    unfolding n_def by auto
  from snoc.prems obtain l r where ears: "left_ear_of f = Inr l" "l < 0.15"
      "right_ear_of f = Inr r" "\<not> r < 0.15"
    by auto
  have ne: "f \<noteq> []" using ears(1,2) by (auto simp: left_ear_of_empty)
  from right_ear_of_populated [OF ne ears(3)] mar_total obtain m
    where mar: "calculate_mouth_aspect_ratio f = Inr m" by blast
  define nm where "nm = (if m > 0.4 then mouth_open_frames t1 + 1 else 0)"
  have nm: "0 \<le> nm" "nm \<le> int n + 1"
    using inv(3,4) by (simp_all add: nm_def)
  from detect_gesture_step [OF ne ears(1) ears(3) mar, of t1] obtain g d
    where step: "detect_gesture t1 f =
        Inr (g, t1\<lparr>left_eye_closed_frames := int n + 1, right_eye_closed_frames := 0,
              mouth_open_frames := nm, gesture_cooldown := d\<rparr>)"
      and dec0: "(if gesture_cooldown t1 > 0 then g = ''none'' \<and> d = gesture_cooldown t1 - 1
        else if int n + 1 > 2 \<and> (0::int) > 2 then g = ''blink_both'' \<and> d = 15
        else if int n + 1 > 3 \<and> (0::int) = 0 then g = ''blink_left'' \<and> d = 15
        else if (0::int) > 3 \<and> int n + 1 = 0 then g = ''blink_right'' \<and> d = 15
        else if nm > 5 then g = ''mouth_open'' \<and> d = 20
        else g = ''none'' \<and> d = gesture_cooldown t1)"
    unfolding nm_def [symmetric] inv(1,2) if_P [OF ears(2)] if_not_P [OF ears(4)] by blast
  have dec: "if gesture_cooldown t1 > 0 then g = ''none'' \<and> d = gesture_cooldown t1 - 1
              else if 4 \<le> n + 1 then g = ''blink_left'' \<and> d = int 15
              else g = ''none'' \<and> d = gesture_cooldown t1"
  proof (cases "4 \<le> n + 1")
    case True
    then have "int n + 1 > 3" by simp
    with dec0 True show ?thesis by simp
  next
    case False
    then have "\<not> int n + 1 > 3" "\<not> nm > 5" using nm by simp_all
    with dec0 False show ?thesis by simp
  qed
  have cdn: "gesture_cooldown t1 = (if n < 4 then 0 else int 15 - int ((n - 4) mod Suc 15))"
    using inv(5) by simp
  from periodic_step [OF cdn dec]
  have g: "g = (if 4 \<le> n + 1 \<and> (n + 1 - 4) mod 16 = 0 then ''blink_left'' else ''none'')"
    and d: "d = (if Suc n < 4 then 0 else 15 - int ((Suc n - 4) mod 16))"
    by simp_all
  show ?case
    unfolding length_append_singleton n_def [symmetric] periodic_Suc
    using detect_gestures_snoc [OF run step] nm g d
    by (intro exI [of _ "t1\<lparr>left_eye_closed_frames := int n + 1, right_eye_closed_frames := 0,
              mouth_open_frames := nm, gesture_cooldown := d\<rparr>"]) simp
qed

lemma right_closed_run:
  assumes fresh: "left_eye_closed_frames t = 0" "right_eye_closed_frames t = 0"
      "mouth_open_frames t = 0" "gesture_cooldown t = 0"
    and wink: "\<forall>lms\<in>set fs. \<exists>l r. left_ear_of lms = Inr l \<and> \<not> l < 0.15 \<and>
      right_ear_of lms = Inr r \<and> r < 0.15"
  shows "\<exists>t'. detect_gestures t fs = Inr (periodic ''blink_right'' 4 16 (length fs), t') \<and>
     left_eye_closed_frames t' = 0 \<and>
     right_eye_closed_frames t' = int (length fs) \<and>
     0 \<le> mouth_open_frames t' \<and> mouth_open_frames t' \<le> int (length fs) \<and>
     gesture_cooldown t' = (if length fs < 4 then 0 else 15 - int ((length fs - 4) mod 16))"
  using wink
proof (induction fs rule: rev_induct)
  case Nil
  show ?case using fresh by (simp add: periodic_0)
next
  case (snoc f fs)
  define n where "n = length fs"
  from snoc obtain t1 where run: "detect_gestures t fs = Inr (periodic ''blink_right'' 4 16 n, t1)"
    and inv: "left_eye_closed_frames t1 = 0" "right_eye_closed_frames t1 = int n"
      "0 \<le> mouth_open_frames t1" "mouth_open_frames t1 \<le> int n"
      "gesture_cooldown t1 = (if n < 4 then 0 else 15 - int ((n - 4) mod 16))"
    unfolding n_def by auto
  from snoc.prems obtain l r where ears: "left_ear_of f = Inr l" "\<not> l < 0.15"
      "right_ear_of f = Inr r" "r < 0.15"
    by auto
  have ne: "f \<noteq> []" using ears(3,4) by (auto simp: right_ear_of_empty)
  from right_ear_of_populated [OF ne ears(3)] mar_total obtain m
    where mar: "calculate_mouth_aspect_ratio f = Inr m" by blast
  define nm where "nm = (if m > 0.4 then mouth_open_frames t1 + 1 else 0)"
  have nm: "0 \<le> nm" "nm \<le> int n + 1"
    using inv(3,4) by (simp_all add: nm_def)
  from detect_gesture_step [OF ne ears(1) ears(3) mar, of t1] obtain g d
    where step: "detect_gesture t1 f =
        Inr (g, t1\<lparr>left_eye_closed_frames := 0, right_eye_closed_frames := int n + 1,
              mouth_open_frames := nm, gesture_cooldown := d\<rparr>)"
      and dec0: "(if gesture_cooldown t1 > 0 then g = ''none'' \<and> d = gesture_cooldown t1 - 1
        else if (0::int) > 2 \<and> int n + 1 > 2 then g = ''blink_both'' \<and> d = 15
        else if (0::int) > 3 \<and> int n + 1 = 0 then g = ''blink_left'' \<and> d = 15
        else if int n + 1 > 3 \<and> (0::int) = 0 then g = ''blink_right'' \<and> d = 15
        else if nm > 5 then g = ''mouth_open'' \<and> d = 20
        else g = ''none'' \<and> d = gesture_cooldown t1)"
    unfolding nm_def [symmetric] inv(1,2) if_not_P [OF ears(2)] if_P [OF ears(4)] by blast
  have dec: "if gesture_cooldown t1 > 0 then g = ''none'' \<and> d = gesture_cooldown t1 - 1
              else if 4 \<le> n + 1 then g = ''blink_right'' \<and> d = int 15
              else g = ''none'' \<and> d = gesture_cooldown t1"
  proof (cases "4 \<le> n + 1")
    case True
    then have "int n + 1 > 3" by simp
    with dec0 True show ?thesis by simp
  next
    case False
    then have "\<not> int n + 1 > 3" "\<not> nm > 5" using nm by simp_all
    with dec0 False show ?thesis by simp
  qed
  have cdn: "gesture_cooldown t1 = (if n < 4 then 0 else int 15 - int ((n - 4) mod Suc 15))"
    using inv(5) by simp
  from periodic_step [OF cdn dec]
  have g: "g = (if 4 \<le> n + 1 \<and> (n + 1 - 4) mod 16 = 0 then ''blink_right'' else ''none'')"
    and d: "d = (if Suc n < 4 then 0 else 15 - int ((Suc n - 4) mod 16))"
    by simp_all
  show ?case
    unfolding length_append_singleton n_def [symmetric] periodic_Suc
    using detect_gestures_snoc [OF run step] nm g d
    by (intro exI [of _ "t1\<lparr>left_eye_closed_frames := 0, right_eye_closed_frames := int n + 1,
              mouth_open_frames := nm, gesture_cooldown := d\<rparr>"]) simp
qed

lemma mouth_open_run:
  assumes fresh: "left_eye_closed_frames t = 0" "right_eye_closed_frames t = 0"
      "mouth_open_frames t = 0" "gesture_cooldown t = 0"
    and mouth: "\<forall>lms\<in>set fs. \<exists>l r m. left_ear_of lms = Inr l \<and> \<not> l < 0.15 \<and>
      right_ear_of lms = Inr r \<and> \<not> r < 0.15 \<and>
      calculate_mouth_aspect_ratio lms = Inr m \<and> m > 0.4"
  shows "\<exists>t'. detect_gestures t fs = Inr (periodic ''mouth_open'' 6 21 (length fs), t') \<and>
     left_eye_closed_frames t' = 0 \<and>
     right_eye_closed_frames t' = 0 \<and>
     mouth_open_frames t' = int (length fs) \<and>
     gesture_cooldown t' = (if length fs < 6 then 0 else 20 - int ((length fs - 6) mod 21))"
  using mouth
proof (induction fs rule: rev_induct)
  case Nil
  show ?case using fresh by (simp add: periodic_0)
next
  case (snoc f fs)
  define n where "n = length fs"
  from snoc obtain t1 where run: "detect_gestures t fs = Inr (periodic ''mouth_open'' 6 21 n, t1)"
    and inv: "left_eye_closed_frames t1 = 0" "right_eye_closed_frames t1 = 0"
      "mouth_open_frames t1 = int n"
      "gesture_cooldown t1 = (if n < 6 then 0 else 20 - int ((n - 6) mod 21))"
    unfolding n_def by auto
  from snoc.prems obtain l r m where ears: "left_ear_of f = Inr l" "\<not> l < 0.15"
      "right_ear_of f = Inr r" "\<not> r < 0.15"
      and mar: "calculate_mouth_aspect_ratio f = Inr m" "m > 0.4"
    by auto
  have ne: "f \<noteq> []" using mar by (auto simp: mar_empty)
  from detect_gesture_step [OF ne ears(1) ears(3) mar(1), of t1] obtain g d
    where step: "detect_gesture t1 f =
        Inr (g, t1\<lparr>left_eye_closed_frames := 0, right_eye_closed_frames := 0,
              mouth_open_frames := int n + 1, gesture_cooldown := d\<rparr>)"
      and dec0: "(if gesture_cooldown t1 > 0 then g = ''none'' \<and> d = gesture_cooldown t1 - 1
        else if (0::int) > 2 \<and> (0::int) > 2 then g = ''blink_both'' \<and> d = 15
        else if (0::int) > 3 \<and> (0::int) = 0 then g = ''blink_left'' \<and> d = 15
        else if (0::int) > 3 \<and> (0::int) = 0 then g = ''blink_right'' \<and> d = 15
        else if int n + 1 > 5 then g = ''mouth_open'' \<and> d = 20
        else g = ''none'' \<and> d = gesture_cooldown t1)"
    unfolding inv(1,2,3) if_not_P [OF ears(2)] if_not_P [OF ears(4)] if_P [OF mar(2)] by blast
  have dec: "if gesture_cooldown t1 > 0 then g = ''none'' \<and> d = gesture_cooldown t1 - 1
              else if 6 \<le> n + 1 then g = ''mouth_open'' \<and> d = int 20
              else g = ''none'' \<and> d = gesture_cooldown t1"
  proof (cases "6 \<le> n + 1")
    case True
    then have "int n + 1 > 5" by simp
    with dec0 True show ?thesis by simp
  next
    case False
    then have "\<not> int n + 1 > 5" by simp
    with dec0 False show ?thesis by simp
  qed
  have cdn: "gesture_cooldown t1 = (if n < 6 then 0 else int 20 - int ((n - 6) mod Suc 20))"
    using inv(4) by simp
  from periodic_step [OF cdn dec]
  have g: "g = (if 6 \<le> n + 1 \<and> (n + 1 - 6) mod 21 = 0 then ''mouth_open'' else ''none'')"
    and d: "d = (if Suc n < 6 then 0 else 20 - int ((Suc n - 6) mod 21))"
    by simp_all
  show ?case
    unfolding length_append_singleton n_def [symmetric] periodic_Suc
    using detect_gestures_snoc [OF run step] g d
    by (intro exI [of _ "t1\<lparr>left_eye_closed_frames := 0, right_eye_closed_frames := 0,
              mouth_open_frames := int n + 1, gesture_cooldown := d\<rparr>"]) simp
qed


subsection \<open>The concrete inputs\<close>

lemma face_lengths:
  "length face_at_origin = 478" "length face_both_closed = 478"
  "length face_left_closed = 478" "length face_right_closed = 478"
  "length face_mouth_open = 478"
  by (simp_all add: face_at_origin_def face_both_closed_def face_left_closed_def
      face_right_closed_def face_mouth_open_def)

lemma face_both_closed_ratios:
  "left_ear_of face_both_closed = Inr 0"
  "right_ear_of face_both_closed = Inr 0"
  "calculate_mouth_aspect_ratio face_both_closed = Inr 0"
  by (simp_all add: face_both_closed_def left_ear_of_def right_ear_of_def
      calculate_eye_aspect_ratio_def calculate_mouth_aspect_ratio_def nth_py_def
      landmark_indices)

lemma face_left_closed_ratios:
  "left_ear_of face_left_closed = Inr 0"
  "right_ear_of face_left_closed = Inr 1"
  "calculate_mouth_aspect_ratio face_left_closed = Inr 0"
  by (simp_all add: face_left_closed_def left_ear_of_def right_ear_of_def
      calculate_eye_aspect_ratio_def calculate_mouth_aspect_ratio_def nth_py_def
      landmark_indices)

lemma face_right_closed_ratios:
  "left_ear_of face_right_closed = Inr 1"
  "right_ear_of face_right_closed = Inr 0"
  "calculate_mouth_aspect_ratio face_right_closed = Inr 0"
  by (simp_all add: face_right_closed_def left_ear_of_def right_ear_of_def
      calculate_eye_aspect_ratio_def calculate_mouth_aspect_ratio_def nth_py_def
      landmark_indices)

lemma face_mouth_open_ratios:
  "left_ear_of face_mouth_open = Inr 1"
  "right_ear_of face_mouth_open = Inr 1"
  "calculate_mouth_aspect_ratio face_mouth_open = Inr 1"
  by (simp_all add: face_mouth_open_def left_ear_of_def right_ear_of_def
      calculate_eye_aspect_ratio_def calculate_mouth_aspect_ratio_def nth_py_def
      landmark_indices)

lemma face_at_origin_ratios:
  "left_ear_of face_at_origin = Inr 1"
  "right_ear_of face_at_origin = Inr 1"
  "calculate_mouth_aspect_ratio face_at_origin = Inr 0"
  by (simp_all add: face_at_origin_def left_ear_of_def right_ear_of_def
      calculate_eye_aspect_ratio_def calculate_mouth_aspect_ratio_def nth_py_def
      landmark_indices)


subsection \<open>Cooldown\<close>

lemma detect_gestures_append_Inr:
  assumes "detect_gestures t xs = Inr (gs, t1)"
    and "detect_gestures t1 ys = Inr (gs', t2)"
  shows "detect_gestures t (xs @ ys) = Inr (gs @ gs', t2)"
  using assms by (simp add: detect_gestures_append)

lemma cooldown_run:
  assumes "int (length fs) \<le> gesture_cooldown t"
    and "\<forall>lms\<in>set fs. RIGHT_EYE_TOP < length lms"
  shows "\<exists>t'. detect_gestures t fs = Inr (replicate (length fs) ''none'', t') \<and>
     gesture_cooldown t' = gesture_cooldown t - int (length fs)"
  using assms
proof (induction fs arbitrary: t)
  case Nil
  show ?case by simp
next
  case (Cons f fs)
  from Cons.prems(2) have len: "RIGHT_EYE_TOP < length f" by simp
  then have ne: "f \<noteq> []" by auto
  from left_ear_of_total [OF len] right_ear_of_total [OF len] mar_total [OF len]
  obtain l r m where ears: "left_ear_of f = Inr l" "right_ear_of f = Inr r"
      "calculate_mouth_aspect_ratio f = Inr m"
    by blast
  from Cons.prems(1) have pos: "gesture_cooldown t > 0" by simp
  from detect_gesture_step [OF ne ears, of t] pos obtain t1
    where step: "detect_gesture t f = Inr (''none'', t1)"
      and cd: "gesture_cooldown t1 = gesture_cooldown t - 1"
    by auto
  from Cons.prems cd have "int (length fs) \<le> gesture_cooldown t1"
    "\<forall>lms\<in>set fs. RIGHT_EYE_TOP < length lms"
    by simp_all
  from Cons.IH [OF this] obtain t2
    where rest: "detect_gestures t1 fs = Inr (replicate (length fs) ''none'', t2)"
      and cd2: "gesture_cooldown t2 = gesture_cooldown t1 - int (length fs)"
    by blast
  from step rest cd cd2 show ?case by simp
qed

lemma periodic_blink_both_3: "periodic ''blink_both'' 3 16 3 = [''none'', ''none'', ''blink_both'']"
  by code_simp

subsection \<open>Evaluation on the concrete inputs and the right-eye counter\<close>

lemma periodic_mouth_open_6:
  "periodic ''mouth_open'' 6 21 6 =
     [''none'', ''none'', ''none'', ''none'', ''none'', ''mouth_open'']"
  by code_simp

lemma periodic_blink_left_4:
  "periodic ''blink_left'' 4 16 4 = [''none'', ''none'', ''none'', ''blink_left'']"
  by code_simp

lemma right_counter_nonneg_step:
  assumes "detect_gesture t f = Inr (g, t')" and "0 \<le> right_eye_closed_frames t"
  shows "0 \<le> right_eye_closed_frames t'"
proof (cases "f = []")
  case True
  with assms show ?thesis by (simp add: detect_gesture_def)
next
  case False
  from assms(1) False obtain l r m where ears: "left_ear_of f = Inr l"
    "right_ear_of f = Inr r" "calculate_mouth_aspect_ratio f = Inr m"
    unfolding detect_gesture_def bind_py_def by (simp split: sum.splits)
  from detect_gesture_step [OF False ears, of t] assms show ?thesis
    by auto
qed

lemma right_counter_nonneg_run:
  assumes "detect_gestures t fs = Inr (gs, t')" and "0 \<le> right_eye_closed_frames t"
  shows "0 \<le> right_eye_closed_frames t'"
  using assms
proof (induction fs arbitrary: t gs)
  case Nil
  then show ?case by simp
next
  case (Cons f fs)
  from Cons.prems(1) obtain g t1 gs1 where step: "detect_gesture t f = Inr (g, t1)"
    and rest: "detect_gestures t1 fs = Inr (gs1, t')"
    by (auto simp: bind_py_def split: sum.splits)
  from right_counter_nonneg_step [OF step Cons.prems(2)] Cons.IH [OF rest]
  show ?case by blast
qed

lemma no_blink_left_when_right_closed:
  assumes "detect_gesture t f = Inr (g, t')"
    and "right_ear_of f = Inr r" and "r < 0.15"
    and "0 \<le> right_eye_closed_frames t"
  shows "g \<noteq> ''blink_left''"
proof -
  have ne: "f \<noteq> []" using assms(2,3) by (auto simp: right_ear_of_empty)
  from assms(1) ne obtain l m where ears: "left_ear_of f = Inr l"
    "calculate_mouth_aspect_ratio f = Inr m"
    unfolding detect_gesture_def bind_py_def by (simp split: sum.splits)
  define nl where "nl = (if l < 0.15 then left_eye_closed_frames t + 1 else 0)"
  define nm where "nm = (if m > 0.4 then mouth_open_frames t + 1 else 0)"
  define nr where "nr = right_eye_closed_frames t + 1"
  have nr: "nr \<noteq> 0" using assms(4) by (simp add: nr_def)
  from detect_gesture_step [OF ne ears(1) assms(2) ears(2), of t] obtain g0 d
    where step: "detect_gesture t f =
        Inr (g0, t\<lparr>left_eye_closed_frames := nl, right_eye_closed_frames := nr,
               mouth_open_frames := nm, gesture_cooldown := d\<rparr>)"
      and dec: "(if gesture_cooldown t > 0 then g0 = ''none'' \<and> d = gesture_cooldown t - 1
        else if nl > 2 \<and> nr > 2 then g0 = ''blink_both'' \<and> d = 15
        else if nl > 3 \<and> nr = 0 then g0 = ''blink_left'' \<and> d = 15
        else if nr > 3 \<and> nl = 0 then g0 = ''blink_right'' \<and> d = 15
        else if nm > 5 then g0 = ''mouth_open'' \<and> d = 20
        else g0 = ''none'' \<and> d = gesture_cooldown t)"
    unfolding nl_def [symmetric] nm_def [symmetric] if_P [OF assms(3)] nr_def [symmetric]
    by blast
  from step assms(1) have "g = g0" by simp
  moreover from dec nr have "g0 \<noteq> ''blink_left''"
    by (auto split: if_splits)
  ultimately show ?thesis by simp
qed


lemma faces_nonempty:
  "face_at_origin \<noteq> []" "face_both_closed \<noteq> []" "face_left_closed \<noteq> []"
  "face_right_closed \<noteq> []" "face_mouth_open \<noteq> []"
  using face_lengths by auto

lemmas eval_faces =
  detect_gesture_def Let_def faces_nonempty face_at_origin_ratios face_both_closed_ratios
  face_left_closed_ratios face_right_closed_ratios face_mouth_open_ratios

subsection \<open>One frame, branch by branch\<close>

lemma get_tracking_point_mode:
  "mode t' = mode t \<Longrightarrow> get_tracking_point t' lms w h = get_tracking_point t lms w h"
  by (simp add: get_tracking_point_def)

lemma landmark_copy: "map (\<lambda>lm. FaceLandmark (lm_x lm) (lm_y lm) (lm_z lm)) xs = xs"
  by (induction xs) simp_all

lemma get_tracking_point_None:
  "get_tracking_point t lms w h = Inr None \<longleftrightarrow> lms = []"
  by (auto simp: get_tracking_point_def bind_py_def Let_def split: sum.splits if_splits)

lemma process_frame_not_read:
  "\<not> cap_opened t \<or> \<not> ret fr \<Longrightarrow> process_frame t fr = Inr (None, t)"
  by (auto simp: process_frame_def)

lemma process_frame_no_face:
  assumes "cap_opened t" and "ret fr" and "raw_point t fr = Inr None"
  shows "process_frame t fr =
     Inr (if show_preview t \<and> quit_key fr then None
          else Some \<lparr>rec_x = 0.5, rec_y = 0.5, rec_gesture = ''none'',
                     rec_face_detected = False,
                     rec_fps = (if now fr - start_time t > 0
                                then real_of_int (frame_count t + 1) / (now fr - start_time t)
                                else 0.0)\<rparr>,
          t\<lparr>frame_count := frame_count t + 1, timestamp_ms := timestamp_ms t + 33\<rparr>)"
proof (cases "use_mediapipe t")
  case True
  show ?thesis
  proof (cases "face_landmarks fr = []")
    case True
    with assms \<open>use_mediapipe t\<close> show ?thesis
      by (simp add: process_frame_def Let_def)
  next
    case False
    with assms(3) \<open>use_mediapipe t\<close> have "hd (face_landmarks fr) = []"
      by (simp add: raw_point_def get_tracking_point_None)
    with assms False \<open>use_mediapipe t\<close> show ?thesis
      by (simp add: process_frame_def Let_def get_tracking_point_def)
  qed
next
  case False
  with assms(3) have "faces fr = []"
    by (simp add: raw_point_def split: list.splits prod.splits)
  with assms False show ?thesis
    by (simp add: process_frame_def Let_def)
qed


lemma detect_gesture_total:
  assumes "RIGHT_EYE_TOP < length lms"
  shows "\<exists>g t'. detect_gesture t lms = Inr (g, t')"
proof -
  from assms have ne: "lms \<noteq> []" by auto
  from left_ear_of_total [OF assms] right_ear_of_total [OF assms] mar_total [OF assms]
  obtain l r m where "left_ear_of lms = Inr l" "right_ear_of lms = Inr r"
      "calculate_mouth_aspect_ratio lms = Inr m"
    by blast
  from detect_gesture_step [OF ne this, of t] show ?thesis by blast
qed

lemma process_frame_mediapipe:
  assumes "cap_opened t" and "ret fr" and "use_mediapipe t"
    and "face_landmarks fr \<noteq> []"
    and "get_tracking_point t (hd (face_landmarks fr)) (frame_width fr) (frame_height fr)
           = Inr (Some (x, y))"
    and "detect_gesture
           (t\<lparr>frame_count := frame_count t + 1, timestamp_ms := timestamp_ms t + 33,
              smooth_x := smooth_x t * smoothing_factor t + x * (1 - smoothing_factor t),
              smooth_y := smooth_y t * smoothing_factor t + y * (1 - smoothing_factor t)\<rparr>)
           (hd (face_landmarks fr)) = Inr (g, t3)"
  shows "process_frame t fr =
     Inr (if show_preview t3 \<and> quit_key fr then None
          else Some \<lparr>rec_x = smooth_x t * smoothing_factor t + x * (1 - smoothing_factor t),
                     rec_y = smooth_y t * smoothing_factor t + y * (1 - smoothing_factor t),
                     rec_gesture = g, rec_face_detected = True,
                     rec_fps = (if now fr - start_time t3 > 0
                                then real_of_int (frame_count t3) / (now fr - start_time t3)
                                else 0.0)\<rparr>, t3)"
proof -
  have gtp: "get_tracking_point
      (t\<lparr>frame_count := frame_count t + 1, timestamp_ms := timestamp_ms t + 33\<rparr>)
      (hd (face_landmarks fr)) (frame_width fr) (frame_height fr) = Inr (Some (x, y))"
    using assms(5)
      get_tracking_point_mode [of "t\<lparr>frame_count := frame_count t + 1,
        timestamp_ms := timestamp_ms t + 33\<rparr>" t]
    by simp
  show ?thesis
    using assms(1-4) gtp assms(6)
    by (simp add: process_frame_def Let_def landmark_copy)
qed

lemma process_frame_haar:
  assumes "cap_opened t" and "ret fr" and "\<not> use_mediapipe t"
    and "faces fr = (box_x, box_y, box_w, box_h) # boxes"
  shows "process_frame t fr =
     Inr (if show_preview t \<and> quit_key fr then None
          else Some \<lparr>rec_x = smooth_x t * smoothing_factor t
                        + (real_of_int box_x + real_of_int box_w / 2) / real (frame_width fr)
                          * (1 - smoothing_factor t),
                     rec_y = smooth_y t * smoothing_factor t
                        + (real_of_int box_y + real_of_int box_h / 2) / real (frame_height fr)
                          * (1 - smoothing_factor t),
                     rec_gesture = ''none'', rec_face_detected = True,
                     rec_fps = (if now fr - start_time t > 0
                                then real_of_int (frame_count t + 1) / (now fr - start_time t)
                                else 0.0)\<rparr>,
          t\<lparr>frame_count := frame_count t + 1, timestamp_ms := timestamp_ms t + 33,
            smooth_x := smooth_x t * smoothing_factor t
                        + (real_of_int box_x + real_of_int box_w / 2) / real (frame_width fr)
                          * (1 - smoothing_factor t),
            smooth_y := smooth_y t * smoothing_factor t
                        + (real_of_int box_y + real_of_int box_h / 2) / real (frame_height fr)
                          * (1 - smoothing_factor t)\<rparr>)"
  using assms by (simp add: process_frame_def Let_def)


lemma raw_point_cong:
  "mode t' = mode t \<Longrightarrow> use_mediapipe t' = use_mediapipe t \<Longrightarrow>
   raw_point t' fr = raw_point t fr"
  by (simp add: raw_point_def get_tracking_point_mode [of t' t])

lemma process_frame_face:
  assumes "cap_opened t" and "ret fr" and "raw_point t fr = Inr (Some (x, y))"
    and "process_frame t fr = Inr (res, t')"
  shows "\<exists>g a b c d.
     t' = t\<lparr>frame_count := frame_count t + 1, timestamp_ms := timestamp_ms t + 33,
            smooth_x := smooth_x t * smoothing_factor t + x * (1 - smoothing_factor t),
            smooth_y := smooth_y t * smoothing_factor t + y * (1 - smoothing_factor t),
            left_eye_closed_frames := a, right_eye_closed_frames := b,
            mouth_open_frames := c, gesture_cooldown := d\<rparr> \<and>
     res = (if show_preview t \<and> quit_key fr then None
            else Some \<lparr>rec_x = smooth_x t * smoothing_factor t + x * (1 - smoothing_factor t),
                       rec_y = smooth_y t * smoothing_factor t + y * (1 - smoothing_factor t),
                       rec_gesture = g, rec_face_detected = True,
                       rec_fps = (if now fr - start_time t > 0
                                  then real_of_int (frame_count t + 1) / (now fr - start_time t)
                                  else 0.0)\<rparr>)"
proof (cases "use_mediapipe t")
  case True
  define t2 where "t2 = t\<lparr>frame_count := frame_count t + 1, timestamp_ms := timestamp_ms t + 33,
              smooth_x := smooth_x t * smoothing_factor t + x * (1 - smoothing_factor t),
              smooth_y := smooth_y t * smoothing_factor t + y * (1 - smoothing_factor t)\<rparr>"
  from assms(3) True have fl: "face_landmarks fr \<noteq> []"
    and gtp: "get_tracking_point t (hd (face_landmarks fr)) (frame_width fr) (frame_height fr)
           = Inr (Some (x, y))"
    by (auto simp: raw_point_def split: if_splits)
  have gtp1: "get_tracking_point
      (t\<lparr>frame_count := frame_count t + 1, timestamp_ms := timestamp_ms t + 33\<rparr>)
      (hd (face_landmarks fr)) (frame_width fr) (frame_height fr) = Inr (Some (x, y))"
    using gtp
      get_tracking_point_mode [of "t\<lparr>frame_count := frame_count t + 1,
        timestamp_ms := timestamp_ms t + 33\<rparr>" t]
    by simp
  obtain g t3 where dg: "detect_gesture t2 (hd (face_landmarks fr)) = Inr (g, t3)"
  proof (cases "detect_gesture t2 (hd (face_landmarks fr))")
    case (Inl e)
    with assms(1,2) True fl gtp1 have "process_frame t fr = Inl e"
      by (simp add: process_frame_def Let_def landmark_copy t2_def)
    with assms(4) show ?thesis by simp
  next
    case (Inr p)
    with that show ?thesis by (cases p) auto
  qed
  from detect_gesture_frame [OF dg] obtain a b c d
    where t3: "t3 = t2\<lparr>left_eye_closed_frames := a, right_eye_closed_frames := b,
        mouth_open_frames := c, gesture_cooldown := d\<rparr>"
    by blast
  have sel: "show_preview t3 = show_preview t" "start_time t3 = start_time t"
      "frame_count t3 = frame_count t + 1"
    by (simp_all add: t3 t2_def)
  have eq: "t3 = t\<lparr>frame_count := frame_count t + 1, timestamp_ms := timestamp_ms t + 33,
            smooth_x := smooth_x t * smoothing_factor t + x * (1 - smoothing_factor t),
            smooth_y := smooth_y t * smoothing_factor t + y * (1 - smoothing_factor t),
            left_eye_closed_frames := a, right_eye_closed_frames := b,
            mouth_open_frames := c, gesture_cooldown := d\<rparr>"
    by (simp only: t3 t2_def)
  have pf: "process_frame t fr =
     Inr (if show_preview t3 \<and> quit_key fr then None
          else Some \<lparr>rec_x = smooth_x t * smoothing_factor t + x * (1 - smoothing_factor t),
                     rec_y = smooth_y t * smoothing_factor t + y * (1 - smoothing_factor t),
                     rec_gesture = g, rec_face_detected = True,
                     rec_fps = (if now fr - start_time t3 > 0
                                then real_of_int (frame_count t3) / (now fr - start_time t3)
                                else 0.0)\<rparr>, t3)"
    by (rule process_frame_mediapipe [OF assms(1,2) True fl gtp dg [unfolded t2_def]])
  from pf assms(4) have "t' = t3"
    by (simp only: sum.inject prod.inject)
  with eq have t': "t' = t\<lparr>frame_count := frame_count t + 1, timestamp_ms := timestamp_ms t + 33,
            smooth_x := smooth_x t * smoothing_factor t + x * (1 - smoothing_factor t),
            smooth_y := smooth_y t * smoothing_factor t + y * (1 - smoothing_factor t),
            left_eye_closed_frames := a, right_eye_closed_frames := b,
            mouth_open_frames := c, gesture_cooldown := d\<rparr>"
    by (simp only:)
  from pf assms(4) have "res = (if show_preview t3 \<and> quit_key fr then None
          else Some \<lparr>rec_x = smooth_x t * smoothing_factor t + x * (1 - smoothing_factor t),
                     rec_y = smooth_y t * smoothing_factor t + y * (1 - smoothing_factor t),
                     rec_gesture = g, rec_face_detected = True,
                     rec_fps = (if now fr - start_time t3 > 0
                                then real_of_int (frame_count t3) / (now fr - start_time t3)
                                else 0.0)\<rparr>)"
    by (simp only: sum.inject prod.inject)
  then have res: "res = (if show_preview t \<and> quit_key fr then None
            else Some \<lparr>rec_x = smooth_x t * smoothing_factor t + x * (1 - smoothing_factor t),
                       rec_y = smooth_y t * smoothing_factor t + y * (1 - smoothing_factor t),
                       rec_gesture = g, rec_face_detected = True,
                       rec_fps = (if now fr - start_time t > 0
                                  then real_of_int (frame_count t + 1) / (now fr - start_time t)
                                  else 0.0)\<rparr>)"
    unfolding sel .
  from t' res show ?thesis by blast
next
  case False
  with assms(3) obtain box_x box_y box_w box_h boxes
    where boxes: "faces fr = (box_x, box_y, box_w, box_h) # boxes"
      and x: "x = (real_of_int box_x + real_of_int box_w / 2) / real (frame_width fr)"
      and y: "y = (real_of_int box_y + real_of_int box_h / 2) / real (frame_height fr)"
    by (auto simp: raw_point_def split: list.splits prod.splits)
  from process_frame_haar [OF assms(1,2) False boxes] assms(4)
  have "t' = t\<lparr>frame_count := frame_count t + 1, timestamp_ms := timestamp_ms t + 33,
            smooth_x := smooth_x t * smoothing_factor t + x * (1 - smoothing_factor t),
            smooth_y := smooth_y t * smoothing_factor t + y * (1 - smoothing_factor t),
            left_eye_closed_frames := left_eye_closed_frames t,
            right_eye_closed_frames := right_eye_closed_frames t,
            mouth_open_frames := mouth_open_frames t,
            gesture_cooldown := gesture_cooldown t\<rparr>"
    and "res = (if show_preview t \<and> quit_key fr then None
            else Some \<lparr>rec_x = smooth_x t * smoothing_factor t + x * (1 - smoothing_factor t),
                       rec_y = smooth_y t * smoothing_factor t + y * (1 - smoothing_factor t),
                       rec_gesture = ''none'', rec_face_detected = True,
                       rec_fps = (if now fr - start_time t > 0
                                  then real_of_int (frame_count t + 1) / (now fr - start_time t)
                                  else 0.0)\<rparr>)"
    by (simp_all add: x y)
  then show ?thesis by blast
qed

lemma process_frame_face_total:
  assumes "cap_opened t" and "ret fr" and "raw_point t fr = Inr (Some (x, y))"
    and "use_mediapipe t \<longrightarrow> RIGHT_EYE_TOP < length (hd (face_landmarks fr))"
  shows "\<exists>res t'. process_frame t fr = Inr (res, t')"
proof (cases "use_mediapipe t")
  case True
  from assms(3) True have fl: "face_landmarks fr \<noteq> []"
    and gtp: "get_tracking_point t (hd (face_landmarks fr)) (frame_width fr) (frame_height fr)
           = Inr (Some (x, y))"
    by (auto simp: raw_point_def split: if_splits)
  from assms(4) True detect_gesture_total obtain g t3
    where "detect_gesture
           (t\<lparr>frame_count := frame_count t + 1, timestamp_ms := timestamp_ms t + 33,
              smooth_x := smooth_x t * smoothing_factor t + x * (1 - smoothing_factor t),
              smooth_y := smooth_y t * smoothing_factor t + y * (1 - smoothing_factor t)\<rparr>)
           (hd (face_landmarks fr)) = Inr (g, t3)"
    by blast
  from process_frame_mediapipe [OF assms(1,2) True fl gtp this] show ?thesis by blast
next
  case False
  with assms(3) obtain box_x box_y box_w box_h boxes
    where "faces fr = (box_x, box_y, box_w, box_h) # boxes"
    by (auto simp: raw_point_def split: list.splits prod.splits)
  from process_frame_haar [OF assms(1,2) False this] show ?thesis by blast
qed

subsection \<open>The concrete objects and frames\<close>

lemma tracker_haar_fields:
  "cap_opened tracker_haar" "\<not> use_mediapipe tracker_haar" "\<not> show_preview tracker_haar"
  "smoothing_factor tracker_haar = 1 / 2" "smooth_x tracker_haar = 1 / 2"
  "smooth_y tracker_haar = 1 / 2" "mode tracker_haar = ''nose''"
  "frame_count tracker_haar = 0" "start_time tracker_haar = 0"
  by (simp_all add: tracker_haar_def FaceTracker_init_def)

lemma tracker_mediapipe_fields:
  "cap_opened tracker_mediapipe" "use_mediapipe tracker_mediapipe"
  "\<not> show_preview tracker_mediapipe"
  "smoothing_factor tracker_mediapipe = 1 / 2" "smooth_x tracker_mediapipe = 1 / 2"
  "smooth_y tracker_mediapipe = 1 / 2" "mode tracker_mediapipe = ''nose''"
  "frame_count tracker_mediapipe = 0" "start_time tracker_mediapipe = 0"
  by (simp_all add: tracker_mediapipe_def FaceTracker_init_def)

lemma frame_box_raw: "raw_point tracker_haar frame_box = Inr (Some (4 / 5, 1 / 5))"
  by (simp add: raw_point_def tracker_haar_fields frame_box_def)

lemma frame_empty_raw: "raw_point tracker_haar frame_empty = Inr None"
  by (simp add: raw_point_def tracker_haar_fields frame_empty_def)

lemma process_frame_box:
  assumes "smooth_x t = sx" and "smooth_y t = sy" and "smoothing_factor t = 1 / 2"
    and "cap_opened t" and "\<not> use_mediapipe t" and "\<not> show_preview t"
    and "start_time t = 0"
  shows "process_frame t frame_box =
     Inr (Some \<lparr>rec_x = sx / 2 + 2 / 5, rec_y = sy / 2 + 1 / 10, rec_gesture = ''none'',
                 rec_face_detected = True, rec_fps = real_of_int (frame_count t + 1)\<rparr>,
          t\<lparr>frame_count := frame_count t + 1, timestamp_ms := timestamp_ms t + 33,
            smooth_x := sx / 2 + 2 / 5, smooth_y := sy / 2 + 1 / 10\<rparr>)"
proof -
  have "faces frame_box = (7, 1, 2, 2) # []" "ret frame_box"
    by (simp_all add: frame_box_def)
  from process_frame_haar [OF assms(4) this(2) assms(5) this(1)] assms(1,2,3,6,7)
  show ?thesis by (simp add: frame_box_def)
qed

lemma process_frame_empty:
  assumes "cap_opened t" and "\<not> use_mediapipe t" and "\<not> show_preview t"
    and "start_time t = 0"
  shows "process_frame t frame_empty =
     Inr (Some \<lparr>rec_x = 1 / 2, rec_y = 1 / 2, rec_gesture = ''none'',
                 rec_face_detected = False, rec_fps = real_of_int (frame_count t + 1)\<rparr>,
          t\<lparr>frame_count := frame_count t + 1, timestamp_ms := timestamp_ms t + 33\<rparr>)"
proof -
  have "ret frame_empty" "raw_point t frame_empty = Inr None"
    using assms(2) by (simp_all add: frame_empty_def raw_point_def)
  from process_frame_no_face [OF assms(1) this] assms(3,4)
  show ?thesis by (simp add: frame_empty_def)
qed

lemma frame_landmarks_raw:
  "raw_point tracker_mediapipe (frame_landmarks face_both_closed) = Inr (Some (0, 0))"
  by (simp add: raw_point_def tracker_mediapipe_fields frame_landmarks_def
      get_tracking_point_def faces_nonempty nth_py_def face_both_closed_def landmark_indices)

subsection \<open>Runs of the main loop\<close>

lemma convex_in_unit:
  fixes a s x :: real
  assumes "0 \<le> a" and "a \<le> 1" and "0 \<le> s" and "s \<le> 1" and "0 \<le> x" and "x \<le> 1"
  shows "0 \<le> s * a + x * (1 - a)" and "s * a + x * (1 - a) \<le> 1"
proof -
  from assms show "0 \<le> s * a + x * (1 - a)" by simp
  from assms have "s * a \<le> 1 * a" by (intro mult_right_mono) simp_all
  moreover from assms have "x * (1 - a) \<le> 1 * (1 - a)" by (intro mult_right_mono) simp_all
  ultimately show "s * a + x * (1 - a) \<le> 1" by simp
qed

lemma process_frame_raw_error:
  assumes "cap_opened t" and "ret fr" and "raw_point t fr = Inl e"
  shows "process_frame t fr = Inl e"
proof -
  from assms(3) have mp: "use_mediapipe t" and fl: "face_landmarks fr \<noteq> []"
    and gtp: "get_tracking_point t (hd (face_landmarks fr)) (frame_width fr) (frame_height fr)
           = Inl e"
    by (auto simp: raw_point_def split: if_splits list.splits prod.splits)
  have "get_tracking_point
      (t\<lparr>frame_count := frame_count t + 1, timestamp_ms := timestamp_ms t + 33\<rparr>)
      (hd (face_landmarks fr)) (frame_width fr) (frame_height fr) = Inl e"
    using gtp
      get_tracking_point_mode [of "t\<lparr>frame_count := frame_count t + 1,
        timestamp_ms := timestamp_ms t + 33\<rparr>" t]
    by simp
  with assms(1,2) mp fl show ?thesis
    by (simp add: process_frame_def Let_def landmark_copy)
qed

text \<open>The three ways in which one call of \<open>process_frame\<close> returns.\<close>

lemma process_frame_cases:
  assumes "process_frame t fr = Inr (res, t')"
  obtains (not_read) "\<not> (cap_opened t \<and> ret fr)" "res = None" "t' = t"
  | (no_face) "cap_opened t" "ret fr" "raw_point t fr = Inr None"
      "t' = t\<lparr>frame_count := frame_count t + 1, timestamp_ms := timestamp_ms t + 33\<rparr>"
      "res = (if show_preview t \<and> quit_key fr then None
          else Some \<lparr>rec_x = 0.5, rec_y = 0.5, rec_gesture = ''none'',
                     rec_face_detected = False,
                     rec_fps = (if now fr - start_time t > 0
                                then real_of_int (frame_count t + 1) / (now fr - start_time t)
                                else 0.0)\<rparr>)"
  | (face) x y g a b c d where "cap_opened t" "ret fr" "raw_point t fr = Inr (Some (x, y))"
      "t' = t\<lparr>frame_count := frame_count t + 1, timestamp_ms := timestamp_ms t + 33,
            smooth_x := smooth_x t * smoothing_factor t + x * (1 - smoothing_factor t),
            smooth_y := smooth_y t * smoothing_factor t + y * (1 - smoothing_factor t),
            left_eye_closed_frames := a, right_eye_closed_frames := b,
            mouth_open_frames := c, gesture_cooldown := d\<rparr>"
      "res = (if show_preview t \<and> quit_key fr then None
            else Some \<lparr>rec_x = smooth_x t * smoothing_factor t + x * (1 - smoothing_factor t),
                       rec_y = smooth_y t * smoothing_factor t + y * (1 - smoothing_factor t),
                       rec_gesture = g, rec_face_detected = True,
                       rec_fps = (if now fr - start_time t > 0
                                  then real_of_int (frame_count t + 1) / (now fr - start_time t)
                                  else 0.0)\<rparr>)"
proof (cases "cap_opened t \<and> ret fr")
  case False
  with assms process_frame_not_read [of t fr] have "res = None" "t' = t" by auto
  with False not_read show ?thesis by blast
next
  case True
  then have read: "cap_opened t" "ret fr" by simp_all
  show ?thesis
  proof (cases "raw_point t fr")
    case (Inl e)
    from process_frame_raw_error [OF read Inl] assms show ?thesis by simp
  next
    case (Inr p)
    show ?thesis
    proof (cases p)
      case None
      with Inr have raw: "raw_point t fr = Inr None" by simp
      from process_frame_no_face [OF read raw] assms
      have "t' = t\<lparr>frame_count := frame_count t + 1, timestamp_ms := timestamp_ms t + 33\<rparr>"
        "res = (if show_preview t \<and> quit_key fr then None
          else Some \<lparr>rec_x = 0.5, rec_y = 0.5, rec_gesture = ''none'',
                     rec_face_detected = False,
                     rec_fps = (if now fr - start_time t > 0
                                then real_of_int (frame_count t + 1) / (now fr - start_time t)
                                else 0.0)\<rparr>)"
        by simp_all
      with read raw no_face show ?thesis by blast
    next
      case (Some xy)
      obtain x y where "xy = (x, y)" by (cases xy)
      with Some Inr have raw: "raw_point t fr = Inr (Some (x, y))" by simp
      from process_frame_face [OF read raw assms] read raw face show ?thesis by blast
    qed
  qed
qed


lemma process_frame_in_range:
  assumes pf: "process_frame t fr = Inr (res, t')"
    and alpha: "0 \<le> smoothing_factor t" "smoothing_factor t < 1"
    and range: "0 \<le> smooth_x t" "smooth_x t \<le> 1" "0 \<le> smooth_y t" "smooth_y t \<le> 1"
    and raw: "\<forall>x y. raw_point t fr = Inr (Some (x, y)) \<longrightarrow>
        0 \<le> x \<and> x \<le> 1 \<and> 0 \<le> y \<and> y \<le> 1"
  shows "0 \<le> smooth_x t' \<and> smooth_x t' \<le> 1 \<and> 0 \<le> smooth_y t' \<and> smooth_y t' \<le> 1 \<and>
     smoothing_factor t' = smoothing_factor t \<and> mode t' = mode t \<and>
     use_mediapipe t' = use_mediapipe t \<and>
     (\<forall>r. res = Some r \<longrightarrow>
        0 \<le> rec_x r \<and> rec_x r \<le> 1 \<and> 0 \<le> rec_y r \<and> rec_y r \<le> 1)"
  using pf
proof (cases rule: process_frame_cases)
  case not_read
  with range show ?thesis by simp
next
  case no_face
  with range show ?thesis by (simp split: if_splits)
next
  case (face x y g a b c d)
  from raw face(3) have xy: "0 \<le> x" "x \<le> 1" "0 \<le> y" "y \<le> 1" by simp_all
  from alpha have a1: "smoothing_factor t \<le> 1" by simp
  note cx = convex_in_unit [OF alpha(1) a1 range(1,2) xy(1,2)]
  note cy = convex_in_unit [OF alpha(1) a1 range(3,4) xy(3,4)]
  from face(4,5) cx cy show ?thesis by (simp split: if_splits)
qed

lemma run_loop_in_range:
  assumes "run_loop t fs = Inr (rs, t')"
    and "0 \<le> smoothing_factor t" "smoothing_factor t < 1"
    and "0 \<le> smooth_x t" "smooth_x t \<le> 1" "0 \<le> smooth_y t" "smooth_y t \<le> 1"
    and "\<forall>fr\<in>set fs. \<forall>x y. raw_point t fr = Inr (Some (x, y)) \<longrightarrow>
        0 \<le> x \<and> x \<le> 1 \<and> 0 \<le> y \<and> y \<le> 1"
  shows "0 \<le> smooth_x t' \<and> smooth_x t' \<le> 1 \<and> 0 \<le> smooth_y t' \<and> smooth_y t' \<le> 1 \<and>
     (\<forall>r\<in>set rs. 0 \<le> rec_x r \<and> rec_x r \<le> 1 \<and> 0 \<le> rec_y r \<and> rec_y r \<le> 1)"
  using assms
proof (induction fs arbitrary: t rs)
  case Nil
  then show ?case by simp
next
  case (Cons fr fs)
  from Cons.prems(1) obtain res t1 where pf: "process_frame t fr = Inr (res, t1)"
    by (cases "process_frame t fr") (auto simp: bind_py_def)
  from Cons.prems(8) have raw: "\<forall>x y. raw_point t fr = Inr (Some (x, y)) \<longrightarrow>
        0 \<le> x \<and> x \<le> 1 \<and> 0 \<le> y \<and> y \<le> 1" by simp
  note step = process_frame_in_range [OF pf Cons.prems(2-7) raw]
  show ?case
  proof (cases res)
    case None
    with Cons.prems(1) pf have "rs = []" "t' = t1" by simp_all
    with step show ?thesis by simp
  next
    case (Some r)
    with Cons.prems(1) pf obtain rs1 where rest: "run_loop t1 fs = Inr (rs1, t')"
      and rs: "rs = r # rs1"
      by (cases "run_loop t1 fs") (auto simp: bind_py_def)
    from step have same: "mode t1 = mode t" "use_mediapipe t1 = use_mediapipe t" by simp_all
    from Cons.prems(8) raw_point_cong [OF same]
    have raw1: "\<forall>fr\<in>set fs. \<forall>x y. raw_point t1 fr = Inr (Some (x, y)) \<longrightarrow>
        0 \<le> x \<and> x \<le> 1 \<and> 0 \<le> y \<and> y \<le> 1" by simp
    from step Cons.prems(2,3) have "0 \<le> smoothing_factor t1" "smoothing_factor t1 < 1"
      "0 \<le> smooth_x t1" "smooth_x t1 \<le> 1" "0 \<le> smooth_y t1" "smooth_y t1 \<le> 1"
      by simp_all
    from Cons.IH [OF rest this raw1] step Some rs show ?thesis by simp
  qed
qed

lemma run_loop_box_empty:
  "run_loop tracker_haar [frame_box, frame_empty] =
     Inr ([\<lparr>rec_x = 13 / 20, rec_y = 7 / 20, rec_gesture = ''none'',
             rec_face_detected = True, rec_fps = 1\<rparr>,
           \<lparr>rec_x = 1 / 2, rec_y = 1 / 2, rec_gesture = ''none'',
             rec_face_detected = False, rec_fps = 2\<rparr>],
          tracker_haar\<lparr>frame_count := 2, timestamp_ms := 66,
            smooth_x := 13 / 20, smooth_y := 7 / 20\<rparr>)"
proof -
  have box: "process_frame tracker_haar frame_box =
     Inr (Some \<lparr>rec_x = 13 / 20, rec_y = 7 / 20, rec_gesture = ''none'',
                 rec_face_detected = True, rec_fps = 1\<rparr>,
          tracker_haar\<lparr>frame_count := 1, timestamp_ms := 33,
            smooth_x := 13 / 20, smooth_y := 7 / 20\<rparr>)"
    using process_frame_box [of tracker_haar "1 / 2" "1 / 2"]
    by (simp add: tracker_haar_fields) (simp add: tracker_haar_def FaceTracker_init_def)
  have empty: "process_frame (tracker_haar\<lparr>frame_count := 1, timestamp_ms := 33,
            smooth_x := 13 / 20, smooth_y := 7 / 20\<rparr>) frame_empty =
     Inr (Some \<lparr>rec_x = 1 / 2, rec_y = 1 / 2, rec_gesture = ''none'',
                 rec_face_detected = False, rec_fps = 2\<rparr>,
          tracker_haar\<lparr>frame_count := 2, timestamp_ms := 66,
            smooth_x := 13 / 20, smooth_y := 7 / 20\<rparr>)"
    using process_frame_empty [of "tracker_haar\<lparr>frame_count := 1, timestamp_ms := 33,
            smooth_x := 13 / 20, smooth_y := 7 / 20\<rparr>"]
    by (simp add: tracker_haar_fields)
  show ?thesis by (simp add: box empty)
qed



subsection \<open>Runs of the classifier from a state with a cooldown\<close>

lemma face_mouth_open_left_closed_ratios:
  "left_ear_of face_mouth_open_left_closed = Inr 0"
  "right_ear_of face_mouth_open_left_closed = Inr 1"
  "calculate_mouth_aspect_ratio face_mouth_open_left_closed = Inr 1"
  by (simp_all add: face_mouth_open_left_closed_def left_ear_of_def right_ear_of_def
      calculate_eye_aspect_ratio_def calculate_mouth_aspect_ratio_def nth_py_def
      landmark_indices)

lemma periodic_step_from:
  fixes cd d :: int and n c0 c :: nat
  assumes cdn: "cd = (if n < Suc c0 then int c0 - int n
                      else int c - int ((n - Suc c0) mod Suc c))"
    and dec: "if cd > 0 then g' = ''none'' \<and> d = cd - 1 else g' = g \<and> d = int c"
  shows "g' = (if Suc c0 \<le> n + 1 \<and> (n + 1 - Suc c0) mod Suc c = 0 then g else ''none'') \<and>
     d = (if Suc n < Suc c0 then int c0 - int (Suc n)
          else int c - int ((Suc n - Suc c0) mod Suc c))"
proof -
  consider (cooling) "n < c0" | (first) "n = c0" | (later) "Suc c0 \<le> n"
    by linarith
  then show ?thesis
  proof cases
    case cooling
    with cdn have "cd = int c0 - int n" "cd > 0" by simp_all
    with dec cooling show ?thesis by simp
  next
    case first
    with cdn have "cd = 0" by simp
    with dec first show ?thesis by simp
  next
    case later
    define j where "j = (n - Suc c0) mod Suc c"
    have j: "j \<le> c" unfolding j_def using mod_less_divisor [of "Suc c" "n - Suc c0"] by simp
    from later have suc: "n + 1 - Suc c0 = Suc (n - Suc c0)" "Suc n - Suc c0 = Suc (n - Suc c0)"
      by simp_all
    have next_mod: "Suc (n - Suc c0) mod Suc c = (if j = c then 0 else Suc j)"
      by (simp add: mod_Suc j_def)
    from later cdn have cd: "cd = int c - int j" by (simp add: j_def)
    from later have k1: "Suc c0 \<le> n + 1" "\<not> Suc n < Suc c0" by simp_all
    show ?thesis
    proof (cases "j = c")
      case True
      with cd dec have "g' = g" "d = int c" by simp_all
      with True k1 show ?thesis unfolding suc next_mod by simp
    next
      case False
      with j have "j < c" by simp
      with cd dec have "g' = ''none''" "d = int c - int j - 1" by simp_all
      with False k1 show ?thesis unfolding suc next_mod by simp
    qed
  qed
qed

lemma both_closed_window:
  assumes start: "gesture_cooldown t = int c0"
      "2 \<le> left_eye_closed_frames t + int c0" "2 \<le> right_eye_closed_frames t + int c0"
    and held: "\<forall>lms\<in>set fs. \<exists>l r. left_ear_of lms = Inr l \<and> l < 0.15 \<and>
      right_ear_of lms = Inr r \<and> r < 0.15"
  shows "\<exists>t'. detect_gestures t fs =
       Inr (periodic ''blink_both'' (Suc c0) 16 (length fs), t') \<and>
     left_eye_closed_frames t' = left_eye_closed_frames t + int (length fs) \<and>
     right_eye_closed_frames t' = right_eye_closed_frames t + int (length fs) \<and>
     gesture_cooldown t' = (if length fs < Suc c0 then int c0 - int (length fs)
                            else 15 - int ((length fs - Suc c0) mod 16))"
  using held
proof (induction fs rule: rev_induct)
  case Nil
  show ?case using start by (simp add: periodic_0)
next
  case (snoc f fs)
  define n where "n = length fs"
  from snoc obtain t1
    where run: "detect_gestures t fs = Inr (periodic ''blink_both'' (Suc c0) 16 n, t1)"
      and inv: "left_eye_closed_frames t1 = left_eye_closed_frames t + int n"
        "right_eye_closed_frames t1 = right_eye_closed_frames t + int n"
        "gesture_cooldown t1 = (if n < Suc c0 then int c0 - int n
                                else 15 - int ((n - Suc c0) mod 16))"
    unfolding n_def by auto
  from snoc.prems obtain l r where ears: "left_ear_of f = Inr l" "l < 0.15"
      "right_ear_of f = Inr r" "r < 0.15"
    by auto
  have ne: "f \<noteq> []" using ears(1,2) by (auto simp: left_ear_of_empty)
  from right_ear_of_populated [OF ne ears(3)] mar_total obtain m
    where mar: "calculate_mouth_aspect_ratio f = Inr m" by blast
  define nl where "nl = left_eye_closed_frames t + int n + 1"
  define nr where "nr = right_eye_closed_frames t + int n + 1"
  define nm where "nm = (if m > 0.4 then mouth_open_frames t1 + 1 else 0)"
  from detect_gesture_step [OF ne ears(1) ears(3) mar, of t1] obtain g d
    where step: "detect_gesture t1 f =
        Inr (g, t1\<lparr>left_eye_closed_frames := nl, right_eye_closed_frames := nr,
              mouth_open_frames := nm, gesture_cooldown := d\<rparr>)"
      and dec0: "(if gesture_cooldown t1 > 0 then g = ''none'' \<and> d = gesture_cooldown t1 - 1
        else if nl > 2 \<and> nr > 2 then g = ''blink_both'' \<and> d = 15
        else if nl > 3 \<and> nr = 0 then g = ''blink_left'' \<and> d = 15
        else if nr > 3 \<and> nl = 0 then g = ''blink_right'' \<and> d = 15
        else if nm > 5 then g = ''mouth_open'' \<and> d = 20
        else g = ''none'' \<and> d = gesture_cooldown t1)"
    unfolding nm_def [symmetric] inv(1,2) if_P [OF ears(2)] if_P [OF ears(4)]
      nl_def [symmetric] nr_def [symmetric] by blast
  have dec: "if gesture_cooldown t1 > 0 then g = ''none'' \<and> d = gesture_cooldown t1 - 1
              else g = ''blink_both'' \<and> d = int 15"
  proof (cases "gesture_cooldown t1 > 0")
    case True
    with dec0 show ?thesis by simp
  next
    case False
    with inv(3) have "c0 \<le> n" by (simp split: if_splits)
    with start(2,3) have "nl > 2" "nr > 2" by (simp_all add: nl_def nr_def)
    with dec0 False show ?thesis by simp
  qed
  have cdn: "gesture_cooldown t1 = (if n < Suc c0 then int c0 - int n
                      else int 15 - int ((n - Suc c0) mod Suc 15))"
    using inv(3) by simp
  from periodic_step_from [OF cdn dec]
  have g: "g = (if Suc c0 \<le> n + 1 \<and> (n + 1 - Suc c0) mod 16 = 0
                then ''blink_both'' else ''none'')"
    and d: "d = (if Suc n < Suc c0 then int c0 - int (Suc n)
                 else 15 - int ((Suc n - Suc c0) mod 16))"
    by simp_all
  show ?case
    unfolding length_append_singleton n_def [symmetric] periodic_Suc
    using detect_gestures_snoc [OF run step] g d
    by (intro exI [of _ "t1\<lparr>left_eye_closed_frames := nl, right_eye_closed_frames := nr,
              mouth_open_frames := nm, gesture_cooldown := d\<rparr>"])
       (simp add: nl_def nr_def)
qed


lemma left_closed_window:
  assumes start: "gesture_cooldown t = int c0" "3 \<le> left_eye_closed_frames t + int c0"
    and held: "\<forall>lms\<in>set fs. \<exists>l r. left_ear_of lms = Inr l \<and> l < 0.15 \<and>
      right_ear_of lms = Inr r \<and> \<not> r < 0.15"
  shows "\<exists>t'. detect_gestures t fs =
       Inr (periodic ''blink_left'' (Suc c0) 16 (length fs), t') \<and>
     left_eye_closed_frames t' = left_eye_closed_frames t + int (length fs) \<and>
     gesture_cooldown t' = (if length fs < Suc c0 then int c0 - int (length fs)
                            else 15 - int ((length fs - Suc c0) mod 16))"
  using held
proof (induction fs rule: rev_induct)
  case Nil
  show ?case using start by (simp add: periodic_0)
next
  case (snoc f fs)
  define n where "n = length fs"
  from snoc obtain t1
    where run: "detect_gestures t fs = Inr (periodic ''blink_left'' (Suc c0) 16 n, t1)"
      and inv: "left_eye_closed_frames t1 = left_eye_closed_frames t + int n"
        "gesture_cooldown t1 = (if n < Suc c0 then int c0 - int n
                                else 15 - int ((n - Suc c0) mod 16))"
    unfolding n_def by auto
  from snoc.prems obtain l r where ears: "left_ear_of f = Inr l" "l < 0.15"
      "right_ear_of f = Inr r" "\<not> r < 0.15"
    by auto
  have ne: "f \<noteq> []" using ears(1,2) by (auto simp: left_ear_of_empty)
  from right_ear_of_populated [OF ne ears(3)] mar_total obtain m
    where mar: "calculate_mouth_aspect_ratio f = Inr m" by blast
  define nl where "nl = left_eye_closed_frames t + int n + 1"
  define nm where "nm = (if m > 0.4 then mouth_open_frames t1 + 1 else 0)"
  from detect_gesture_step [OF ne ears(1) ears(3) mar, of t1] obtain g d
    where step: "detect_gesture t1 f =
        Inr (g, t1\<lparr>left_eye_closed_frames := nl, right_eye_closed_frames := 0,
              mouth_open_frames := nm, gesture_cooldown := d\<rparr>)"
      and dec0: "(if gesture_cooldown t1 > 0 then g = ''none'' \<and> d = gesture_cooldown t1 - 1
        else if nl > 2 \<and> (0::int) > 2 then g = ''blink_both'' \<and> d = 15
        else if nl > 3 \<and> (0::int) = 0 then g = ''blink_left'' \<and> d = 15
        else if (0::int) > 3 \<and> nl = 0 then g = ''blink_right'' \<and> d = 15
        else if nm > 5 then g = ''mouth_open'' \<and> d = 20
        else g = ''none'' \<and> d = gesture_cooldown t1)"
    unfolding nm_def [symmetric] inv(1) if_P [OF ears(2)] if_not_P [OF ears(4)]
      nl_def [symmetric] by blast
  have dec: "if gesture_cooldown t1 > 0 then g = ''none'' \<and> d = gesture_cooldown t1 - 1
              else g = ''blink_left'' \<and> d = int 15"
  proof (cases "gesture_cooldown t1 > 0")
    case True
    with dec0 show ?thesis by simp
  next
    case False
    with inv(2) have "c0 \<le> n" by (simp split: if_splits)
    with start(2) have "nl > 3" by (simp add: nl_def)
    with dec0 False show ?thesis by simp
  qed
  have cdn: "gesture_cooldown t1 = (if n < Suc c0 then int c0 - int n
                      else int 15 - int ((n - Suc c0) mod Suc 15))"
    using inv(2) by simp
  from periodic_step_from [OF cdn dec]
  have g: "g = (if Suc c0 \<le> n + 1 \<and> (n + 1 - Suc c0) mod 16 = 0
                then ''blink_left'' else ''none'')"
    and d: "d = (if Suc n < Suc c0 then int c0 - int (Suc n)
                 else 15 - int ((Suc n - Suc c0) mod 16))"
    by simp_all
  show ?case
    unfolding length_append_singleton n_def [symmetric] periodic_Suc
    using detect_gestures_snoc [OF run step] g d
    by (intro exI [of _ "t1\<lparr>left_eye_closed_frames := nl, right_eye_closed_frames := 0,
              mouth_open_frames := nm, gesture_cooldown := d\<rparr>"])
       (simp add: nl_def)
qed

lemma right_closed_window:
  assumes start: "gesture_cooldown t = int c0" "3 \<le> right_eye_closed_frames t + int c0"
    and held: "\<forall>lms\<in>set fs. \<exists>l r. left_ear_of lms = Inr l \<and> \<not> l < 0.15 \<and>
      right_ear_of lms = Inr r \<and> r < 0.15"
  shows "\<exists>t'. detect_gestures t fs =
       Inr (periodic ''blink_right'' (Suc c0) 16 (length fs), t') \<and>
     right_eye_closed_frames t' = right_eye_closed_frames t + int (length fs) \<and>
     gesture_cooldown t' = (if length fs < Suc c0 then int c0 - int (length fs)
                            else 15 - int ((length fs - Suc c0) mod 16))"
  using held
proof (induction fs rule: rev_induct)
  case Nil
  show ?case using start by (simp add: periodic_0)
next
  case (snoc f fs)
  define n where "n = length fs"
  from snoc obtain t1
    where run: "detect_gestures t fs = Inr (periodic ''blink_right'' (Suc c0) 16 n, t1)"
      and inv: "right_eye_closed_frames t1 = right_eye_closed_frames t + int n"
        "gesture_cooldown t1 = (if n < Suc c0 then int c0 - int n
                                else 15 - int ((n - Suc c0) mod 16))"
    unfolding n_def by auto
  from snoc.prems obtain l r where ears: "left_ear_of f = Inr l" "\<not> l < 0.15"
      "right_ear_of f = Inr r" "r < 0.15"
    by auto
  have ne: "f \<noteq> []" using ears(3,4) by (auto simp: right_ear_of_empty)
  from right_ear_of_populated [OF ne ears(3)] mar_total obtain m
    where mar: "calculate_mouth_aspect_ratio f = Inr m" by blast
  define nr where "nr = right_eye_closed_frames t + int n + 1"
  define nm where "nm = (if m > 0.4 then mouth_open_frames t1 + 1 else 0)"
  from detect_gesture_step [OF ne ears(1) ears(3) mar, of t1] obtain g d
    where step: "detect_gesture t1 f =
        Inr (g, t1\<lparr>left_eye_closed_frames := 0, right_eye_closed_frames := nr,
              mouth_open_frames := nm, gesture_cooldown := d\<rparr>)"
      and dec0: "(if gesture_cooldown t1 > 0 then g = ''none'' \<and> d = gesture_cooldown t1 - 1
        else if (0::int) > 2 \<and> nr > 2 then g = ''blink_both'' \<and> d = 15
        else if (0::int) > 3 \<and> nr = 0 then g = ''blink_left'' \<and> d = 15
        else if nr > 3 \<and> (0::int) = 0 then g = ''blink_right'' \<and> d = 15
        else if nm > 5 then g = ''mouth_open'' \<and> d = 20
        else g = ''none'' \<and> d = gesture_cooldown t1)"
    unfolding nm_def [symmetric] inv(1) if_not_P [OF ears(2)] if_P [OF ears(4)]
      nr_def [symmetric] by blast
  have dec: "if gesture_cooldown t1 > 0 then g = ''none'' \<and> d = gesture_cooldown t1 - 1
              else g = ''blink_right'' \<and> d = int 15"
  proof (cases "gesture_cooldown t1 > 0")
    case True
    with dec0 show ?thesis by simp
  next
    case False
    with inv(2) have "c0 \<le> n" by (simp split: if_splits)
    with start(2) have "nr > 3" by (simp add: nr_def)
    with dec0 False show ?thesis by simp
  qed
  have cdn: "gesture_cooldown t1 = (if n < Suc c0 then int c0 - int n
                      else int 15 - int ((n - Suc c0) mod Suc 15))"
    using inv(2) by simp
  from periodic_step_from [OF cdn dec]
  have g: "g = (if Suc c0 \<le> n + 1 \<and> (n + 1 - Suc c0) mod 16 = 0
                then ''blink_right'' else ''none'')"
    and d: "d = (if Suc n < Suc c0 then int c0 - int (Suc n)
                 else 15 - int ((Suc n - Suc c0) mod 16))"
    by simp_all
  show ?case
    unfolding length_append_singleton n_def [symmetric] periodic_Suc
    using detect_gestures_snoc [OF run step] g d
    by (intro exI [of _ "t1\<lparr>left_eye_closed_frames := 0, right_eye_closed_frames := nr,
              mouth_open_frames := nm, gesture_cooldown := d\<rparr>"])
       (simp add: nr_def)
qed

lemma mouth_open_window:
  assumes start: "gesture_cooldown t = int c0" "5 \<le> mouth_open_frames t + int c0"
    and held: "\<forall>lms\<in>set fs. \<exists>l r m. left_ear_of lms = Inr l \<and> \<not> l < 0.15 \<and>
      right_ear_of lms = Inr r \<and> \<not> r < 0.15 \<and>
      calculate_mouth_aspect_ratio lms = Inr m \<and> m > 0.4"
  shows "\<exists>t'. detect_gestures t fs =
       Inr (periodic ''mouth_open'' (Suc c0) 21 (length fs), t') \<and>
     mouth_open_frames t' = mouth_open_frames t + int (length fs) \<and>
     gesture_cooldown t' = (if length fs < Suc c0 then int c0 - int (length fs)
                            else 20 - int ((length fs - Suc c0) mod 21))"
  using held
proof (induction fs rule: rev_induct)
  case Nil
  show ?case using start by (simp add: periodic_0)
next
  case (snoc f fs)
  define n where "n = length fs"
  from snoc obtain t1
    where run: "detect_gestures t fs = Inr (periodic ''mouth_open'' (Suc c0) 21 n, t1)"
      and inv: "mouth_open_frames t1 = mouth_open_frames t + int n"
        "gesture_cooldown t1 = (if n < Suc c0 then int c0 - int n
                                else 20 - int ((n - Suc c0) mod 21))"
    unfolding n_def by auto
  from snoc.prems obtain l r m where ears: "left_ear_of f = Inr l" "\<not> l < 0.15"
      "right_ear_of f = Inr r" "\<not> r < 0.15"
      and mar: "calculate_mouth_aspect_ratio f = Inr m" "m > 0.4"
    by auto
  have ne: "f \<noteq> []" using mar by (auto simp: mar_empty)
  define nm where "nm = mouth_open_frames t + int n + 1"
  from detect_gesture_step [OF ne ears(1) ears(3) mar(1), of t1] obtain g d
    where step: "detect_gesture t1 f =
        Inr (g, t1\<lparr>left_eye_closed_frames := 0, right_eye_closed_frames := 0,
              mouth_open_frames := nm, gesture_cooldown := d\<rparr>)"
      and dec0: "(if gesture_cooldown t1 > 0 then g = ''none'' \<and> d = gesture_cooldown t1 - 1
        else if (0::int) > 2 \<and> (0::int) > 2 then g = ''blink_both'' \<and> d = 15
        else if (0::int) > 3 \<and> (0::int) = 0 then g = ''blink_left'' \<and> d = 15
        else if (0::int) > 3 \<and> (0::int) = 0 then g = ''blink_right'' \<and> d = 15
        else if nm > 5 then g = ''mouth_open'' \<and> d = 20
        else g = ''none'' \<and> d = gesture_cooldown t1)"
    unfolding inv(1) if_not_P [OF ears(2)] if_not_P [OF ears(4)] if_P [OF mar(2)]
      nm_def [symmetric] by blast
  have dec: "if gesture_cooldown t1 > 0 then g = ''none'' \<and> d = gesture_cooldown t1 - 1
              else g = ''mouth_open'' \<and> d = int 20"
  proof (cases "gesture_cooldown t1 > 0")
    case True
    with dec0 show ?thesis by simp
  next
    case False
    with inv(2) have "c0 \<le> n" by (simp split: if_splits)
    with start(2) have "nm > 5" by (simp add: nm_def)
    with dec0 False show ?thesis by simp
  qed
  have cdn: "gesture_cooldown t1 = (if n < Suc c0 then int c0 - int n
                      else int 20 - int ((n - Suc c0) mod Suc 20))"
    using inv(2) by simp
  from periodic_step_from [OF cdn dec]
  have g: "g = (if Suc c0 \<le> n + 1 \<and> (n + 1 - Suc c0) mod 21 = 0
                then ''mouth_open'' else ''none'')"
    and d: "d = (if Suc n < Suc c0 then int c0 - int (Suc n)
                 else 20 - int ((Suc n - Suc c0) mod 21))"
    by simp_all
  show ?case
    unfolding length_append_singleton n_def [symmetric] periodic_Suc
    using detect_gestures_snoc [OF run step] g d
    by (intro exI [of _ "t1\<lparr>left_eye_closed_frames := 0, right_eye_closed_frames := 0,
              mouth_open_frames := nm, gesture_cooldown := d\<rparr>"])
       (simp add: nm_def)
qed


lemma periodic_windows:
  "periodic ''blink_both'' 16 16 33 =
     replicate 15 ''none'' @ [''blink_both''] @ replicate 15 ''none'' @ [''blink_both'', ''none'']"
  "periodic ''blink_both'' 21 16 37 =
     replicate 20 ''none'' @ [''blink_both''] @ replicate 15 ''none'' @ [''blink_both'']"
  "periodic ''blink_left'' 16 16 16 = replicate 15 ''none'' @ [''blink_left'']"
  "periodic ''blink_right'' 16 16 16 = replicate 15 ''none'' @ [''blink_right'']"
  "periodic ''mouth_open'' 21 21 42 =
     replicate 20 ''none'' @ [''mouth_open''] @ replicate 20 ''none'' @ [''mouth_open'']"
  "periodic ''blink_left'' 21 16 21 = replicate 20 ''none'' @ [''blink_left'']"
  by code_simp+

section \<open>The gesture classifier: blink, wink and mouth-open scenarios\<close>

text \<open>
  Claim C2. From a fresh classifier state (the three run-length counters and the cooldown
  all 0), three consecutive face-detected frames on which both eyes have an aspect ratio
  below 0.15 make \<open>detect_gesture\<close> return \<^verbatim>\<open>none\<close>, \<^verbatim>\<open>none\<close>,
  \<^verbatim>\<open>blink_both\<close>, and on each of the next 14 face-detected frames it returns
  \<^verbatim>\<open>none\<close>, whatever those frames show (in particular when both eyes stay
  closed). A face-detected frame is a landmark list that holds every landmark the
  classifier reads (more than \<open>RIGHT_EYE_TOP\<close> entries). The run does not raise.
\<close>

theorem C2_blink_both:
  assumes fresh: "left_eye_closed_frames t = 0" "right_eye_closed_frames t = 0"
      "mouth_open_frames t = 0" "gesture_cooldown t = 0"
    and blink: "length blinks = 3"
      "\<forall>lms\<in>set blinks. \<exists>l r. left_ear_of lms = Inr l \<and> l < 0.15 \<and>
         right_ear_of lms = Inr r \<and> r < 0.15"
    and cool: "length others = 14" "\<forall>lms\<in>set others. RIGHT_EYE_TOP < length lms"
  shows "\<exists>t'. detect_gestures t (blinks @ others) =
     Inr ([''none'', ''none'', ''blink_both''] @ replicate 14 ''none'', t')"
proof -
  from both_closed_run [OF fresh blink(2)] blink(1) obtain t1
    where run1: "detect_gestures t blinks = Inr ([''none'', ''none'', ''blink_both''], t1)"
      and cd: "gesture_cooldown t1 = 15"
    by (auto simp: periodic_blink_both_3)
  from cd cool(1) have "int (length others) \<le> gesture_cooldown t1" by simp
  from cooldown_run [OF this cool(2)] cool(1) obtain t2
    where run2: "detect_gestures t1 others = Inr (replicate 14 ''none'', t2)"
    by auto
  from detect_gestures_append_Inr [OF run1 run2] show ?thesis by blast
qed

theorem C2_blink_both_witness:
  "\<exists>t'. detect_gestures (FaceTracker_init ''nose'' 0 False True 0)
      (replicate 3 face_both_closed @ replicate 14 face_both_closed) =
     Inr ([''none'', ''none'', ''blink_both''] @ replicate 14 ''none'', t')"
  using C2_blink_both [of "FaceTracker_init ''nose'' 0 False True 0"
      "replicate 3 face_both_closed" "replicate 14 face_both_closed"]
  by (simp add: FaceTracker_init_def face_both_closed_ratios face_lengths RIGHT_EYE_TOP_def)


text \<open>
  Claim C5. From a fresh classifier state, six consecutive face-detected frames with a
  mouth aspect ratio above 0.4 and neither eye classified closed give \<^verbatim>\<open>none\<close> five
  times and \<^verbatim>\<open>mouth_open\<close> on the sixth frame; each of the next 20 face-detected
  frames gives \<^verbatim>\<open>none\<close>, whatever it shows. The run does not raise.
\<close>

theorem C5_mouth_open:
  assumes fresh: "left_eye_closed_frames t = 0" "right_eye_closed_frames t = 0"
      "mouth_open_frames t = 0" "gesture_cooldown t = 0"
    and mouth: "length opens = 6"
      "\<forall>lms\<in>set opens. \<exists>l r m. left_ear_of lms = Inr l \<and> \<not> l < 0.15 \<and>
         right_ear_of lms = Inr r \<and> \<not> r < 0.15 \<and>
         calculate_mouth_aspect_ratio lms = Inr m \<and> m > 0.4"
    and cool: "length others = 20" "\<forall>lms\<in>set others. RIGHT_EYE_TOP < length lms"
  shows "\<exists>t'. detect_gestures t (opens @ others) =
     Inr ([''none'', ''none'', ''none'', ''none'', ''none'', ''mouth_open'']
            @ replicate 20 ''none'', t')"
proof -
  from mouth_open_run [OF fresh mouth(2)] mouth(1) obtain t1
    where run1: "detect_gestures t opens =
        Inr ([''none'', ''none'', ''none'', ''none'', ''none'', ''mouth_open''], t1)"
      and cd: "gesture_cooldown t1 = 20"
    by (auto simp: periodic_mouth_open_6)
  from cd cool(1) have "int (length others) \<le> gesture_cooldown t1" by simp
  from cooldown_run [OF this cool(2)] cool(1) obtain t2
    where run2: "detect_gestures t1 others = Inr (replicate 20 ''none'', t2)"
    by auto
  from detect_gestures_append_Inr [OF run1 run2] show ?thesis by blast
qed

theorem C5_mouth_open_witness:
  "\<exists>t'. detect_gestures (FaceTracker_init ''nose'' 0 False True 0)
      (replicate 6 face_mouth_open @ replicate 20 face_both_closed) =
     Inr ([''none'', ''none'', ''none'', ''none'', ''none'', ''mouth_open'']
            @ replicate 20 ''none'', t')"
  using C5_mouth_open [of "FaceTracker_init ''nose'' 0 False True 0"
      "replicate 6 face_mouth_open" "replicate 20 face_both_closed"]
  by (simp add: FaceTracker_init_def face_mouth_open_ratios face_lengths RIGHT_EYE_TOP_def)

text \<open>
  Claim C4, as amended. From a fresh classifier state, four consecutive face-detected
  frames with the left eye closed (aspect ratio below 0.15) and the right eye open give
  \<^verbatim>\<open>none\<close> three times and \<^verbatim>\<open>blink_left\<close> on the fourth frame. And on a frame
  on which the right eye is classified closed, \<^verbatim>\<open>blink_left\<close> is not returned,
  after any run from a fresh state: the test \<^verbatim>\<open>right_eye_closed_frames == 0\<close> reads
  the counter of the current frame, which a closed right eye has just made positive.
\<close>

theorem C4_blink_left:
  assumes fresh: "left_eye_closed_frames t = 0" "right_eye_closed_frames t = 0"
      "mouth_open_frames t = 0" "gesture_cooldown t = 0"
  shows "(length winks = 4 \<and>
          (\<forall>lms\<in>set winks. \<exists>l r. left_ear_of lms = Inr l \<and> l < 0.15 \<and>
             right_ear_of lms = Inr r \<and> \<not> r < 0.15) \<longrightarrow>
          (\<exists>t'. detect_gestures t winks =
             Inr ([''none'', ''none'', ''none'', ''blink_left''], t'))) \<and>
         (detect_gestures t fs = Inr (gs, t1) \<and> detect_gesture t1 f = Inr (g, t2) \<and>
          right_ear_of f = Inr r \<and> r < 0.15 \<longrightarrow> g \<noteq> ''blink_left'')"
proof (intro conjI impI)
  assume a: "length winks = 4 \<and>
          (\<forall>lms\<in>set winks. \<exists>l r. left_ear_of lms = Inr l \<and> l < 0.15 \<and>
             right_ear_of lms = Inr r \<and> \<not> r < 0.15)"
  then have w: "\<forall>lms\<in>set winks. \<exists>l r. left_ear_of lms = Inr l \<and> l < 0.15 \<and>
             right_ear_of lms = Inr r \<and> \<not> r < 0.15" by blast
  from left_closed_run [OF fresh w] a
  show "\<exists>t'. detect_gestures t winks = Inr ([''none'', ''none'', ''none'', ''blink_left''], t')"
    by (auto simp: periodic_blink_left_4)
next
  assume b: "detect_gestures t fs = Inr (gs, t1) \<and> detect_gesture t1 f = Inr (g, t2) \<and>
          right_ear_of f = Inr r \<and> r < 0.15"
  then have "0 \<le> right_eye_closed_frames t1"
    using right_counter_nonneg_run [of t fs gs t1] fresh(2) by simp
  with b show "g \<noteq> ''blink_left''"
    using no_blink_left_when_right_closed [of t1 f g t2 r] by blast
qed

theorem C4_blink_left_witness:
  "(\<exists>t'. detect_gestures (FaceTracker_init ''nose'' 0 False True 0)
       (replicate 4 face_left_closed) =
     Inr ([''none'', ''none'', ''none'', ''blink_left''], t')) \<and>
   detect_gestures (FaceTracker_init ''nose'' 0 False True 0)
       [face_left_closed, face_left_closed, face_left_closed] =
     Inr ([''none'', ''none'', ''none''],
          (FaceTracker_init ''nose'' 0 False True 0)\<lparr>left_eye_closed_frames := 3\<rparr>) \<and>
   detect_gesture ((FaceTracker_init ''nose'' 0 False True 0)\<lparr>left_eye_closed_frames := 3\<rparr>)
       face_both_closed =
     Inr (''none'', (FaceTracker_init ''nose'' 0 False True 0)
            \<lparr>left_eye_closed_frames := 4, right_eye_closed_frames := 1\<rparr>) \<and>
   right_ear_of face_both_closed = Inr 0 \<and> (0::real) < 0.15 \<and>
   ''none'' \<noteq> ''blink_left''"
proof -
  let ?t = "FaceTracker_init ''nose'' 0 False True 0"
  have run: "detect_gestures ?t [face_left_closed, face_left_closed, face_left_closed] =
     Inr ([''none'', ''none'', ''none''], ?t\<lparr>left_eye_closed_frames := 3\<rparr>)"
    by (simp add: eval_faces FaceTracker_init_def)
  have step: "detect_gesture (?t\<lparr>left_eye_closed_frames := 3\<rparr>) face_both_closed =
     Inr (''none'', ?t\<lparr>left_eye_closed_frames := 4, right_eye_closed_frames := 1\<rparr>)"
    by (simp add: eval_faces FaceTracker_init_def)
  have fresh: "left_eye_closed_frames ?t = 0" "right_eye_closed_frames ?t = 0"
      "mouth_open_frames ?t = 0" "gesture_cooldown ?t = 0"
    by (simp_all add: FaceTracker_init_def)
  have wink: "length (replicate 4 face_left_closed) = 4 \<and>
     (\<forall>lms\<in>set (replicate 4 face_left_closed). \<exists>l r. left_ear_of lms = Inr l \<and> l < 0.15 \<and>
             right_ear_of lms = Inr r \<and> \<not> r < 0.15)"
    by (simp add: face_left_closed_ratios)
  from C4_blink_left [OF fresh, of "replicate 4 face_left_closed"
      "[face_left_closed, face_left_closed, face_left_closed]" "[''none'', ''none'', ''none'']"
      "?t\<lparr>left_eye_closed_frames := 3\<rparr>" face_both_closed "''none''"
      "?t\<lparr>left_eye_closed_frames := 4, right_eye_closed_frames := 1\<rparr>" 0]
    wink run step
  show ?thesis by (simp add: face_both_closed_ratios)
qed

text \<open>
  Claim C4 as stated fails: the zero-closed-frame condition on the right eye is not strict
  over the whole run. With the left eye closed on four consecutive frames and the right
  eye closed on the first of them only, \<^verbatim>\<open>blink_left\<close> is returned on the fourth
  frame: the right eye's counter was reset when that eye opened on the second frame.
\<close>

theorem C4_strict_over_run_counterexample:
  "detect_gestures (FaceTracker_init ''nose'' 0 False True 0)
       [face_both_closed, face_left_closed, face_left_closed, face_left_closed] =
     Inr ([''none'', ''none'', ''none'', ''blink_left''],
          (FaceTracker_init ''nose'' 0 False True 0)
            \<lparr>left_eye_closed_frames := 4, gesture_cooldown := 15\<rparr>) \<and>
   left_ear_of face_both_closed = Inr 0 \<and> right_ear_of face_both_closed = Inr 0 \<and>
   left_ear_of face_left_closed = Inr 0 \<and> right_ear_of face_left_closed = Inr 1 \<and>
   (0::real) < 0.15 \<and> \<not> (1::real) < 0.15"
  by (simp add: eval_faces FaceTracker_init_def)


section \<open>Degenerate geometry\<close>

text \<open>
  Claim C6. When the four landmarks of an eye are present and the distance between its
  two corners is below 0.001, \<open>calculate_eye_aspect_ratio\<close> returns exactly 1.0; when the
  four mouth landmarks are present and the distance between the mouth corners is below
  0.001, \<open>calculate_mouth_aspect_ratio\<close> returns exactly 0.0. In both cases the result
  is a value (\<open>Inr\<close>), not an exception.
\<close>

theorem C6_degenerate_geometry:
  "(eye_indices = [i_top, i_bottom, i_left, i_right] \<and>
    i_top < length landmarks \<and> i_bottom < length landmarks \<and>
    i_left < length landmarks \<and> i_right < length landmarks \<and>
    sqrt ((lm_x (landmarks ! i_left) - lm_x (landmarks ! i_right))\<^sup>2
        + (lm_y (landmarks ! i_left) - lm_y (landmarks ! i_right))\<^sup>2) < 0.001
    \<longrightarrow> calculate_eye_aspect_ratio landmarks eye_indices = Inr 1.0) \<and>
   (RIGHT_MOUTH < length landmarks \<and>
    sqrt ((lm_x (landmarks ! LEFT_MOUTH) - lm_x (landmarks ! RIGHT_MOUTH))\<^sup>2
        + (lm_y (landmarks ! LEFT_MOUTH) - lm_y (landmarks ! RIGHT_MOUTH))\<^sup>2) < 0.001
    \<longrightarrow> calculate_mouth_aspect_ratio landmarks = Inr 0.0)"
proof (intro conjI impI)
  assume a: "eye_indices = [i_top, i_bottom, i_left, i_right] \<and>
    i_top < length landmarks \<and> i_bottom < length landmarks \<and>
    i_left < length landmarks \<and> i_right < length landmarks \<and>
    sqrt ((lm_x (landmarks ! i_left) - lm_x (landmarks ! i_right))\<^sup>2
        + (lm_y (landmarks ! i_left) - lm_y (landmarks ! i_right))\<^sup>2) < 0.001"
  then have "landmarks \<noteq> []" by auto
  with a show "calculate_eye_aspect_ratio landmarks eye_indices = Inr 1.0"
    by (simp add: calculate_eye_aspect_ratio_def nth_py_def Let_def)
next
  assume b: "RIGHT_MOUTH < length landmarks \<and>
    sqrt ((lm_x (landmarks ! LEFT_MOUTH) - lm_x (landmarks ! RIGHT_MOUTH))\<^sup>2
        + (lm_y (landmarks ! LEFT_MOUTH) - lm_y (landmarks ! RIGHT_MOUTH))\<^sup>2) < 0.001"
  then have "landmarks \<noteq> []" "UPPER_LIP < length landmarks" "LOWER_LIP < length landmarks"
    "LEFT_MOUTH < length landmarks"
    by (auto simp: landmark_indices)
  with b show "calculate_mouth_aspect_ratio landmarks = Inr 0.0"
    by (simp add: calculate_mouth_aspect_ratio_def nth_py_def Let_def)
qed

theorem C6_degenerate_geometry_witness:
  "calculate_eye_aspect_ratio face_at_origin
       [LEFT_EYE_TOP, LEFT_EYE_BOTTOM, LEFT_EYE_INNER, LEFT_EYE_OUTER] = Inr 1.0 \<and>
   calculate_mouth_aspect_ratio face_at_origin = Inr 0.0 \<and>
   sqrt ((lm_x (face_at_origin ! LEFT_EYE_INNER) - lm_x (face_at_origin ! LEFT_EYE_OUTER))\<^sup>2
       + (lm_y (face_at_origin ! LEFT_EYE_INNER) - lm_y (face_at_origin ! LEFT_EYE_OUTER))\<^sup>2)
     < 0.001 \<and>
   sqrt ((lm_x (face_at_origin ! LEFT_MOUTH) - lm_x (face_at_origin ! RIGHT_MOUTH))\<^sup>2
       + (lm_y (face_at_origin ! LEFT_MOUTH) - lm_y (face_at_origin ! RIGHT_MOUTH))\<^sup>2)
     < 0.001 \<and>
   RIGHT_MOUTH < length face_at_origin \<and> LEFT_EYE_TOP < length face_at_origin"
  using C6_degenerate_geometry [of "[LEFT_EYE_TOP, LEFT_EYE_BOTTOM, LEFT_EYE_INNER, LEFT_EYE_OUTER]"
      LEFT_EYE_TOP LEFT_EYE_BOTTOM LEFT_EYE_INNER LEFT_EYE_OUTER face_at_origin]
  by (simp add: face_at_origin_def landmark_indices)

section \<open>Re-emission while a condition is held\<close>

text \<open>
  Claim C10, as amended. A call of \<open>detect_gesture\<close> on a detected face updates the
  three run-length counters from the frame's aspect ratios alone, whether or not a
  cooldown is running and whether or not a gesture is returned: returning a gesture
  resets no counter, only the cooldown is set (last conjunct). Consequently, let the
  cooldown have \<open>c\<close> frames left and let the condition of a gesture's branch in the
  priority order hold on every following face-detected frame: both eyes closed for
  \<^verbatim>\<open>blink_both\<close>; the left eye closed and the right eye open for \<^verbatim>\<open>blink_left\<close>;
  the right eye closed and the left eye open for \<^verbatim>\<open>blink_right\<close>; the mouth open
  and both eyes open for \<^verbatim>\<open>mouth_open\<close>. If the gesture's run length will have
  passed its threshold when the cooldown ends (as it has right after that gesture was
  returned, and also when the condition sets in during another gesture's cooldown), the
  classifier returns \<^verbatim>\<open>none\<close> on the next \<open>c\<close> frames, that gesture on frame
  \<open>c + 1\<close>, the first after the cooldown has reached zero, and then again every 16
  frames (every 21 for \<^verbatim>\<open>mouth_open\<close>), for as long as the condition is held. The
  counter of the held condition grows by one on every frame throughout.
\<close>

theorem C10_reemission:
  "(gesture_cooldown t = int c \<and> 2 \<le> left_eye_closed_frames t + int c \<and>
    2 \<le> right_eye_closed_frames t + int c \<and>
    (\<forall>lms\<in>set bs. \<exists>l r. left_ear_of lms = Inr l \<and> l < 0.15 \<and>
        right_ear_of lms = Inr r \<and> r < 0.15) \<longrightarrow>
    (\<exists>t'. detect_gestures t bs = Inr (periodic ''blink_both'' (Suc c) 16 (length bs), t') \<and>
       left_eye_closed_frames t' = left_eye_closed_frames t + int (length bs) \<and>
       right_eye_closed_frames t' = right_eye_closed_frames t + int (length bs))) \<and>
   (gesture_cooldown t = int c \<and> 3 \<le> left_eye_closed_frames t + int c \<and>
    (\<forall>lms\<in>set ls. \<exists>l r. left_ear_of lms = Inr l \<and> l < 0.15 \<and>
        right_ear_of lms = Inr r \<and> \<not> r < 0.15) \<longrightarrow>
    (\<exists>t'. detect_gestures t ls = Inr (periodic ''blink_left'' (Suc c) 16 (length ls), t') \<and>
       left_eye_closed_frames t' = left_eye_closed_frames t + int (length ls))) \<and>
   (gesture_cooldown t = int c \<and> 3 \<le> right_eye_closed_frames t + int c \<and>
    (\<forall>lms\<in>set rs. \<exists>l r. left_ear_of lms = Inr l \<and> \<not> l < 0.15 \<and>
        right_ear_of lms = Inr r \<and> r < 0.15) \<longrightarrow>
    (\<exists>t'. detect_gestures t rs = Inr (periodic ''blink_right'' (Suc c) 16 (length rs), t') \<and>
       right_eye_closed_frames t' = right_eye_closed_frames t + int (length rs))) \<and>
   (gesture_cooldown t = int c \<and> 5 \<le> mouth_open_frames t + int c \<and>
    (\<forall>lms\<in>set ms. \<exists>l r m. left_ear_of lms = Inr l \<and> \<not> l < 0.15 \<and>
        right_ear_of lms = Inr r \<and> \<not> r < 0.15 \<and>
        calculate_mouth_aspect_ratio lms = Inr m \<and> m > 0.4) \<longrightarrow>
    (\<exists>t'. detect_gestures t ms = Inr (periodic ''mouth_open'' (Suc c) 21 (length ms), t') \<and>
       mouth_open_frames t' = mouth_open_frames t + int (length ms))) \<and>
   (lms \<noteq> [] \<and> left_ear_of lms = Inr l \<and> right_ear_of lms = Inr r \<and>
    calculate_mouth_aspect_ratio lms = Inr m \<longrightarrow>
    (\<exists>g d. detect_gesture u lms =
       Inr (g, u\<lparr>left_eye_closed_frames :=
                   (if l < 0.15 then left_eye_closed_frames u + 1 else 0),
                 right_eye_closed_frames :=
                   (if r < 0.15 then right_eye_closed_frames u + 1 else 0),
                 mouth_open_frames :=
                   (if m > 0.4 then mouth_open_frames u + 1 else 0),
                 gesture_cooldown := d\<rparr>)))"
proof (intro conjI impI)
  assume a: "gesture_cooldown t = int c \<and> 2 \<le> left_eye_closed_frames t + int c \<and>
    2 \<le> right_eye_closed_frames t + int c \<and>
    (\<forall>lms\<in>set bs. \<exists>l r. left_ear_of lms = Inr l \<and> l < 0.15 \<and>
        right_ear_of lms = Inr r \<and> r < 0.15)"
  then have "gesture_cooldown t = int c" "2 \<le> left_eye_closed_frames t + int c"
    "2 \<le> right_eye_closed_frames t + int c"
    "\<forall>lms\<in>set bs. \<exists>l r. left_ear_of lms = Inr l \<and> l < 0.15 \<and>
        right_ear_of lms = Inr r \<and> r < 0.15"
    by simp_all
  from both_closed_window [OF this]
  show "\<exists>t'. detect_gestures t bs = Inr (periodic ''blink_both'' (Suc c) 16 (length bs), t') \<and>
       left_eye_closed_frames t' = left_eye_closed_frames t + int (length bs) \<and>
       right_eye_closed_frames t' = right_eye_closed_frames t + int (length bs)"
    by blast
next
  assume a: "gesture_cooldown t = int c \<and> 3 \<le> left_eye_closed_frames t + int c \<and>
    (\<forall>lms\<in>set ls. \<exists>l r. left_ear_of lms = Inr l \<and> l < 0.15 \<and>
        right_ear_of lms = Inr r \<and> \<not> r < 0.15)"
  then have "gesture_cooldown t = int c" "3 \<le> left_eye_closed_frames t + int c"
    "\<forall>lms\<in>set ls. \<exists>l r. left_ear_of lms = Inr l \<and> l < 0.15 \<and>
        right_ear_of lms = Inr r \<and> \<not> r < 0.15"
    by simp_all
  from left_closed_window [OF this]
  show "\<exists>t'. detect_gestures t ls = Inr (periodic ''blink_left'' (Suc c) 16 (length ls), t') \<and>
       left_eye_closed_frames t' = left_eye_closed_frames t + int (length ls)"
    by blast
next
  assume a: "gesture_cooldown t = int c \<and> 3 \<le> right_eye_closed_frames t + int c \<and>
    (\<forall>lms\<in>set rs. \<exists>l r. left_ear_of lms = Inr l \<and> \<not> l < 0.15 \<and>
        right_ear_of lms = Inr r \<and> r < 0.15)"
  then have "gesture_cooldown t = int c" "3 \<le> right_eye_closed_frames t + int c"
    "\<forall>lms\<in>set rs. \<exists>l r. left_ear_of lms = Inr l \<and> \<not> l < 0.15 \<and>
        right_ear_of lms = Inr r \<and> r < 0.15"
    by simp_all
  from right_closed_window [OF this]
  show "\<exists>t'. detect_gestures t rs = Inr (periodic ''blink_right'' (Suc c) 16 (length rs), t') \<and>
       right_eye_closed_frames t' = right_eye_closed_frames t + int (length rs)"
    by blast
next
  assume a: "gesture_cooldown t = int c \<and> 5 \<le> mouth_open_frames t + int c \<and>
    (\<forall>lms\<in>set ms. \<exists>l r m. left_ear_of lms = Inr l \<and> \<not> l < 0.15 \<and>
        right_ear_of lms = Inr r \<and> \<not> r < 0.15 \<and>
        calculate_mouth_aspect_ratio lms = Inr m \<and> m > 0.4)"
  then have "gesture_cooldown t = int c" "5 \<le> mouth_open_frames t + int c"
    "\<forall>lms\<in>set ms. \<exists>l r m. left_ear_of lms = Inr l \<and> \<not> l < 0.15 \<and>
        right_ear_of lms = Inr r \<and> \<not> r < 0.15 \<and>
        calculate_mouth_aspect_ratio lms = Inr m \<and> m > 0.4"
    by simp_all
  from mouth_open_window [OF this]
  show "\<exists>t'. detect_gestures t ms = Inr (periodic ''mouth_open'' (Suc c) 21 (length ms), t') \<and>
       mouth_open_frames t' = mouth_open_frames t + int (length ms)"
    by blast
next
  assume "lms \<noteq> [] \<and> left_ear_of lms = Inr l \<and> right_ear_of lms = Inr r \<and>
      calculate_mouth_aspect_ratio lms = Inr m"
  then have "lms \<noteq> []" "left_ear_of lms = Inr l" "right_ear_of lms = Inr r"
      "calculate_mouth_aspect_ratio lms = Inr m"
    by simp_all
  from detect_gesture_step [OF this, of u]
  show "\<exists>g d. detect_gesture u lms =
         Inr (g, u\<lparr>left_eye_closed_frames :=
                     (if l < 0.15 then left_eye_closed_frames u + 1 else 0),
                   right_eye_closed_frames :=
                     (if r < 0.15 then right_eye_closed_frames u + 1 else 0),
                   mouth_open_frames :=
                     (if m > 0.4 then mouth_open_frames u + 1 else 0),
                   gesture_cooldown := d\<rparr>)"
    by blast
qed

theorem C10_reemission_witness:
  "(\<exists>t'. detect_gestures
        ((FaceTracker_init ''nose'' 0 False True 0)
           \<lparr>left_eye_closed_frames := 3, right_eye_closed_frames := 3, gesture_cooldown := 15\<rparr>)
        (replicate 33 face_both_closed) =
      Inr (replicate 15 ''none'' @ [''blink_both''] @ replicate 15 ''none''
             @ [''blink_both'', ''none''], t') \<and>
      left_eye_closed_frames t' = 36 \<and> right_eye_closed_frames t' = 36) \<and>
   (\<exists>t'. detect_gestures
        ((FaceTracker_init ''nose'' 0 False True 0)
           \<lparr>mouth_open_frames := 6, gesture_cooldown := 20\<rparr>)
        (replicate 37 face_both_closed) =
      Inr (replicate 20 ''none'' @ [''blink_both''] @ replicate 15 ''none''
             @ [''blink_both''], t') \<and>
      left_eye_closed_frames t' = 37 \<and> right_eye_closed_frames t' = 37) \<and>
   (\<exists>t'. detect_gestures
        ((FaceTracker_init ''nose'' 0 False True 0)
           \<lparr>left_eye_closed_frames := 4, gesture_cooldown := 15\<rparr>)
        (replicate 16 face_left_closed) =
      Inr (replicate 15 ''none'' @ [''blink_left''], t') \<and>
      left_eye_closed_frames t' = 20) \<and>
   (\<exists>t'. detect_gestures
        ((FaceTracker_init ''nose'' 0 False True 0)
           \<lparr>right_eye_closed_frames := 4, gesture_cooldown := 15\<rparr>)
        (replicate 16 face_right_closed) =
      Inr (replicate 15 ''none'' @ [''blink_right''], t') \<and>
      right_eye_closed_frames t' = 20) \<and>
   (\<exists>t'. detect_gestures
        ((FaceTracker_init ''nose'' 0 False True 0)
           \<lparr>mouth_open_frames := 6, gesture_cooldown := 20\<rparr>)
        (replicate 42 face_mouth_open) =
      Inr (replicate 20 ''none'' @ [''mouth_open''] @ replicate 20 ''none''
             @ [''mouth_open''], t') \<and>
      mouth_open_frames t' = 48) \<and>
   (\<exists>g d. detect_gesture
        ((FaceTracker_init ''nose'' 0 False True 0)
           \<lparr>left_eye_closed_frames := 2, right_eye_closed_frames := 2\<rparr>) face_both_closed =
      Inr (g, (FaceTracker_init ''nose'' 0 False True 0)
           \<lparr>left_eye_closed_frames := 3, right_eye_closed_frames := 3,
            mouth_open_frames := 0, gesture_cooldown := d\<rparr>))"
proof -
  let ?t = "FaceTracker_init ''nose'' 0 False True 0"
  note after_both = C10_reemission [of "?t\<lparr>left_eye_closed_frames := 3,
      right_eye_closed_frames := 3, gesture_cooldown := 15\<rparr>" 15
      "replicate 33 face_both_closed" "replicate 16 face_left_closed"
      "replicate 16 face_right_closed" "replicate 42 face_mouth_open" face_both_closed 0 0 0
      "?t\<lparr>left_eye_closed_frames := 2, right_eye_closed_frames := 2\<rparr>"]
  note after_mouth = C10_reemission [of "?t\<lparr>mouth_open_frames := 6,
      gesture_cooldown := 20\<rparr>" 20
      "replicate 37 face_both_closed" "[]" "[]" "replicate 42 face_mouth_open"]
  note after_left = C10_reemission [of "?t\<lparr>left_eye_closed_frames := 4,
      gesture_cooldown := 15\<rparr>" 15 "[]" "replicate 16 face_left_closed"]
  note after_right = C10_reemission [of "?t\<lparr>right_eye_closed_frames := 4,
      gesture_cooldown := 15\<rparr>" 15 "[]" "[]" "replicate 16 face_right_closed"]
  have both: "\<exists>t'. detect_gestures
        (?t\<lparr>left_eye_closed_frames := 3, right_eye_closed_frames := 3, gesture_cooldown := 15\<rparr>)
        (replicate 33 face_both_closed) =
      Inr (replicate 15 ''none'' @ [''blink_both''] @ replicate 15 ''none''
             @ [''blink_both'', ''none''], t') \<and>
      left_eye_closed_frames t' = 36 \<and> right_eye_closed_frames t' = 36"
    using after_both
    by (simp add: periodic_windows face_both_closed_ratios FaceTracker_init_def)
  have step: "\<exists>g d. detect_gesture
        (?t\<lparr>left_eye_closed_frames := 2, right_eye_closed_frames := 2\<rparr>) face_both_closed =
      Inr (g, ?t\<lparr>left_eye_closed_frames := 3, right_eye_closed_frames := 3,
            mouth_open_frames := 0, gesture_cooldown := d\<rparr>)"
    using after_both
    by (simp add: faces_nonempty face_both_closed_ratios FaceTracker_init_def)
  have both2: "\<exists>t'. detect_gestures (?t\<lparr>mouth_open_frames := 6, gesture_cooldown := 20\<rparr>)
        (replicate 37 face_both_closed) =
      Inr (replicate 20 ''none'' @ [''blink_both''] @ replicate 15 ''none''
             @ [''blink_both''], t') \<and>
      left_eye_closed_frames t' = 37 \<and> right_eye_closed_frames t' = 37"
    using after_mouth
    by (simp add: periodic_windows face_both_closed_ratios FaceTracker_init_def)
  have mouth: "\<exists>t'. detect_gestures (?t\<lparr>mouth_open_frames := 6, gesture_cooldown := 20\<rparr>)
        (replicate 42 face_mouth_open) =
      Inr (replicate 20 ''none'' @ [''mouth_open''] @ replicate 20 ''none''
             @ [''mouth_open''], t') \<and>
      mouth_open_frames t' = 48"
    using after_mouth
    by (simp add: periodic_windows face_mouth_open_ratios FaceTracker_init_def)
  have left: "\<exists>t'. detect_gestures (?t\<lparr>left_eye_closed_frames := 4, gesture_cooldown := 15\<rparr>)
        (replicate 16 face_left_closed) =
      Inr (replicate 15 ''none'' @ [''blink_left''], t') \<and>
      left_eye_closed_frames t' = 20"
    using after_left
    by (simp add: periodic_windows face_left_closed_ratios FaceTracker_init_def)
  have right: "\<exists>t'. detect_gestures (?t\<lparr>right_eye_closed_frames := 4, gesture_cooldown := 15\<rparr>)
        (replicate 16 face_right_closed) =
      Inr (replicate 15 ''none'' @ [''blink_right''], t') \<and>
      right_eye_closed_frames t' = 20"
    using after_right
    by (simp add: periodic_windows face_right_closed_ratios FaceTracker_init_def)
  from both both2 left right mouth step show ?thesis by blast
qed

text \<open>
  Claim C10 as stated fails for a gesture whose condition is held while a condition of
  higher priority builds up. From a fresh state the mouth is open (aspect ratio 1, above
  0.4) on 27 consecutive frames; both eyes are open on the first six and the left eye is
  closed from the seventh on. \<^verbatim>\<open>mouth_open\<close> is returned on frame 6; on frame 27,
  the first after its cooldown of 20 has reached zero, \<^verbatim>\<open>blink_left\<close> is returned
  and not \<^verbatim>\<open>mouth_open\<close>, although the mouth-open run length is 27.
\<close>

theorem C10_held_mouth_not_reemitted_counterexample:
  "map_sum id fst
     (detect_gestures (FaceTracker_init ''nose'' 0 False True 0)
        (replicate 6 face_mouth_open @ replicate 21 face_mouth_open_left_closed)) =
     Inr (replicate 5 ''none'' @ [''mouth_open''] @ replicate 20 ''none'' @ [''blink_left'']) \<and>
   calculate_mouth_aspect_ratio face_mouth_open = Inr 1 \<and>
   calculate_mouth_aspect_ratio face_mouth_open_left_closed = Inr 1 \<and>
   (0.4 :: real) < 1"
proof -
  let ?t = "FaceTracker_init ''nose'' 0 False True 0"
  have fresh: "left_eye_closed_frames ?t = 0" "right_eye_closed_frames ?t = 0"
      "mouth_open_frames ?t = 0" "gesture_cooldown ?t = 0"
    by (simp_all add: FaceTracker_init_def)
  have "\<forall>lms\<in>set (replicate 6 face_mouth_open).
      \<exists>l r m. left_ear_of lms = Inr l \<and> \<not> l < 0.15 \<and>
        right_ear_of lms = Inr r \<and> \<not> r < 0.15 \<and>
        calculate_mouth_aspect_ratio lms = Inr m \<and> m > 0.4"
    by (simp add: face_mouth_open_ratios)
  from mouth_open_run [OF fresh this] obtain t1
    where run1: "detect_gestures ?t (replicate 6 face_mouth_open) =
        Inr ([''none'', ''none'', ''none'', ''none'', ''none'', ''mouth_open''], t1)"
      and t1: "left_eye_closed_frames t1 = 0" "gesture_cooldown t1 = int 20"
    by (auto simp: periodic_mouth_open_6)
  have "\<forall>lms\<in>set (replicate 21 face_mouth_open_left_closed).
      \<exists>l r. left_ear_of lms = Inr l \<and> l < 0.15 \<and> right_ear_of lms = Inr r \<and> \<not> r < 0.15"
    by (simp add: face_mouth_open_left_closed_ratios)
  from left_closed_window [OF t1(2) _ this] t1(1) obtain t2
    where run2: "detect_gestures t1 (replicate 21 face_mouth_open_left_closed) =
        Inr (replicate 20 ''none'' @ [''blink_left''], t2)"
    by (auto simp: periodic_windows)
  have five: "replicate 5 ''none'' = [''none'', ''none'', ''none'', ''none'', ''none'']"
    by code_simp
  from detect_gestures_append_Inr [OF run1 run2]
  show ?thesis
    by (simp add: five face_mouth_open_ratios face_mouth_open_left_closed_ratios)
qed


section \<open>The smoothing filter and the emitted record\<close>

text \<open>
  Claim C1. The constructor seeds the smoothed point at (0.5, 0.5). On a frame that is
  read and has a raw point \<open>(x, y)\<close>, \<open>process_frame\<close> leaves the object with
  \<open>smooth_x * \<alpha> + x * (1 - \<alpha>)\<close> and \<open>smooth_y * \<alpha> + y * (1 - \<alpha>)\<close>, where \<open>\<alpha>\<close> is
  \<open>smoothing_factor\<close>; such a frame is processed without an exception when, on the
  MediaPipe branch, the face holds every landmark the classifier reads. On a frame with
  no raw point the smoothed point after the frame is the one before it. The image of a
  frame that was read has positive width and height.
\<close>

theorem C1_smoothing_update:
  "smooth_x (FaceTracker_init md cam preview mp tm) = 0.5 \<and>
   smooth_y (FaceTracker_init md cam preview mp tm) = 0.5 \<and>
   (cap_opened t \<and> ret fr \<and> 0 < frame_width fr \<and> 0 < frame_height fr \<and>
    raw_point t fr = Inr (Some (x, y)) \<and> process_frame t fr = Inr (res, t') \<longrightarrow>
      smooth_x t' = smooth_x t * smoothing_factor t + x * (1 - smoothing_factor t) \<and>
      smooth_y t' = smooth_y t * smoothing_factor t + y * (1 - smoothing_factor t)) \<and>
   (cap_opened t \<and> ret fr \<and> raw_point t fr = Inr (Some (x, y)) \<and>
    (use_mediapipe t \<longrightarrow> RIGHT_EYE_TOP < length (hd (face_landmarks fr))) \<longrightarrow>
      (\<exists>res t'. process_frame t fr = Inr (res, t'))) \<and>
   (raw_point t fr = Inr None \<and> process_frame t fr = Inr (res, t') \<longrightarrow>
      smooth_x t' = smooth_x t \<and> smooth_y t' = smooth_y t)"
proof (intro conjI impI)
  show "smooth_x (FaceTracker_init md cam preview mp tm) = 0.5"
    "smooth_y (FaceTracker_init md cam preview mp tm) = 0.5"
    by (simp_all add: FaceTracker_init_def)
next
  assume a: "cap_opened t \<and> ret fr \<and> 0 < frame_width fr \<and> 0 < frame_height fr \<and>
    raw_point t fr = Inr (Some (x, y)) \<and> process_frame t fr = Inr (res, t')"
  then have "cap_opened t" "ret fr" "raw_point t fr = Inr (Some (x, y))"
    "process_frame t fr = Inr (res, t')" by simp_all
  from process_frame_face [OF this]
  show "smooth_x t' = smooth_x t * smoothing_factor t + x * (1 - smoothing_factor t)"
    "smooth_y t' = smooth_y t * smoothing_factor t + y * (1 - smoothing_factor t)"
    by auto
next
  assume "cap_opened t \<and> ret fr \<and> raw_point t fr = Inr (Some (x, y)) \<and>
    (use_mediapipe t \<longrightarrow> RIGHT_EYE_TOP < length (hd (face_landmarks fr)))"
  then show "\<exists>res t'. process_frame t fr = Inr (res, t')"
    using process_frame_face_total [of t fr x y] by blast
next
  assume b: "raw_point t fr = Inr None \<and> process_frame t fr = Inr (res, t')"
  show "smooth_x t' = smooth_x t" "smooth_y t' = smooth_y t"
  proof -
    have "smooth_x t' = smooth_x t \<and> smooth_y t' = smooth_y t"
    proof (cases "cap_opened t \<and> ret fr")
      case True
      with b process_frame_no_face [of t fr] show ?thesis by auto
    next
      case False
      with b process_frame_not_read [of t fr] show ?thesis by auto
    qed
    then show "smooth_x t' = smooth_x t" "smooth_y t' = smooth_y t" by simp_all
  qed
qed


theorem C1_smoothing_update_witness:
  "process_frame tracker_haar frame_box =
     Inr (Some \<lparr>rec_x = 13 / 20, rec_y = 7 / 20, rec_gesture = ''none'',
                 rec_face_detected = True, rec_fps = 1\<rparr>,
          tracker_haar\<lparr>frame_count := 1, timestamp_ms := 33,
            smooth_x := 13 / 20, smooth_y := 7 / 20\<rparr>) \<and>
   raw_point tracker_haar frame_box = Inr (Some (4 / 5, 1 / 5)) \<and>
   smooth_x (tracker_haar\<lparr>frame_count := 1, timestamp_ms := 33,
            smooth_x := 13 / 20, smooth_y := 7 / 20\<rparr>) =
     smooth_x tracker_haar * smoothing_factor tracker_haar
       + 4 / 5 * (1 - smoothing_factor tracker_haar) \<and>
   smooth_y (tracker_haar\<lparr>frame_count := 1, timestamp_ms := 33,
            smooth_x := 13 / 20, smooth_y := 7 / 20\<rparr>) =
     smooth_y tracker_haar * smoothing_factor tracker_haar
       + 1 / 5 * (1 - smoothing_factor tracker_haar) \<and>
   process_frame tracker_haar frame_empty =
     Inr (Some \<lparr>rec_x = 1 / 2, rec_y = 1 / 2, rec_gesture = ''none'',
                 rec_face_detected = False, rec_fps = 1\<rparr>,
          tracker_haar\<lparr>frame_count := 1, timestamp_ms := 33\<rparr>) \<and>
   raw_point tracker_haar frame_empty = Inr None \<and>
   smooth_x (tracker_haar\<lparr>frame_count := 1, timestamp_ms := 33\<rparr>) = smooth_x tracker_haar \<and>
   smooth_y (tracker_haar\<lparr>frame_count := 1, timestamp_ms := 33\<rparr>) = smooth_y tracker_haar \<and>
   raw_point tracker_mediapipe (frame_landmarks face_both_closed) = Inr (Some (0, 0)) \<and>
   (\<exists>res t'. process_frame tracker_mediapipe (frame_landmarks face_both_closed) = Inr (res, t'))"
proof -
  have box: "process_frame tracker_haar frame_box =
     Inr (Some \<lparr>rec_x = 13 / 20, rec_y = 7 / 20, rec_gesture = ''none'',
                 rec_face_detected = True, rec_fps = 1\<rparr>,
          tracker_haar\<lparr>frame_count := 1, timestamp_ms := 33,
            smooth_x := 13 / 20, smooth_y := 7 / 20\<rparr>)"
    using process_frame_box [of tracker_haar "1 / 2" "1 / 2"]
    by (simp add: tracker_haar_fields) (simp add: tracker_haar_def FaceTracker_init_def)
  have empty: "process_frame tracker_haar frame_empty =
     Inr (Some \<lparr>rec_x = 1 / 2, rec_y = 1 / 2, rec_gesture = ''none'',
                 rec_face_detected = False, rec_fps = 1\<rparr>,
          tracker_haar\<lparr>frame_count := 1, timestamp_ms := 33\<rparr>)"
    using process_frame_empty [of tracker_haar]
    by (simp add: tracker_haar_fields) (simp add: tracker_haar_def FaceTracker_init_def)
  have dims: "ret frame_box" "0 < frame_width frame_box" "0 < frame_height frame_box"
    "ret (frame_landmarks face_both_closed)"
    "RIGHT_EYE_TOP < length (hd (face_landmarks (frame_landmarks face_both_closed)))"
    by (simp_all add: frame_box_def frame_landmarks_def face_lengths RIGHT_EYE_TOP_def)
  note c1 = C1_smoothing_update [of "''nose''" 0 False False 0 tracker_haar frame_box
      "4 / 5" "1 / 5" _ "tracker_haar\<lparr>frame_count := 1, timestamp_ms := 33,
            smooth_x := 13 / 20, smooth_y := 7 / 20\<rparr>"]
  note c2 = C1_smoothing_update [of "''nose''" 0 False False 0 tracker_haar frame_empty
      "4 / 5" "1 / 5" _ "tracker_haar\<lparr>frame_count := 1, timestamp_ms := 33\<rparr>"]
  note c3 = C1_smoothing_update [of "''nose''" 0 False True 0 tracker_mediapipe
      "frame_landmarks face_both_closed" 0 0]
  from c1 box frame_box_raw dims tracker_haar_fields(1)
  have "smooth_x (tracker_haar\<lparr>frame_count := 1, timestamp_ms := 33,
            smooth_x := 13 / 20, smooth_y := 7 / 20\<rparr>) =
     smooth_x tracker_haar * smoothing_factor tracker_haar
       + 4 / 5 * (1 - smoothing_factor tracker_haar) \<and>
   smooth_y (tracker_haar\<lparr>frame_count := 1, timestamp_ms := 33,
            smooth_x := 13 / 20, smooth_y := 7 / 20\<rparr>) =
     smooth_y tracker_haar * smoothing_factor tracker_haar
       + 1 / 5 * (1 - smoothing_factor tracker_haar)"
    by blast
  moreover from c2 empty frame_empty_raw
  have "smooth_x (tracker_haar\<lparr>frame_count := 1, timestamp_ms := 33\<rparr>) = smooth_x tracker_haar \<and>
   smooth_y (tracker_haar\<lparr>frame_count := 1, timestamp_ms := 33\<rparr>) = smooth_y tracker_haar"
    by blast
  moreover from c3 frame_landmarks_raw dims tracker_mediapipe_fields(1)
  have "\<exists>res t'. process_frame tracker_mediapipe (frame_landmarks face_both_closed) = Inr (res, t')"
    by blast
  ultimately show ?thesis
    using box empty frame_box_raw frame_empty_raw frame_landmarks_raw by blast
qed

text \<open>
  Claim C3, as amended. On a processed frame in which no face is detected (and the
  preview's quit key is not pressed), \<open>process_frame\<close> returns a record with
  \<^verbatim>\<open>face_detected\<close> false, gesture \<^verbatim>\<open>none\<close> and \<^verbatim>\<open>x\<close>, \<^verbatim>\<open>y\<close> equal to
  the constants 0.5, 0.5 with which every record starts; the smoothed point is not
  written into such a record, and it is unchanged in the object.
\<close>

theorem C3_no_face_record:
  "cap_opened t \<and> ret fr \<and> raw_point t fr = Inr None \<and>
   \<not> (show_preview t \<and> quit_key fr) \<longrightarrow>
     (\<exists>r t'. process_frame t fr = Inr (Some r, t') \<and>
        rec_face_detected r = False \<and> rec_gesture r = ''none'' \<and>
        rec_x r = 0.5 \<and> rec_y r = 0.5 \<and>
        smooth_x t' = smooth_x t \<and> smooth_y t' = smooth_y t)"
proof
  assume a: "cap_opened t \<and> ret fr \<and> raw_point t fr = Inr None \<and>
   \<not> (show_preview t \<and> quit_key fr)"
  then have "cap_opened t" "ret fr" "raw_point t fr = Inr None" by simp_all
  from process_frame_no_face [OF this] a
  show "\<exists>r t'. process_frame t fr = Inr (Some r, t') \<and>
        rec_face_detected r = False \<and> rec_gesture r = ''none'' \<and>
        rec_x r = 0.5 \<and> rec_y r = 0.5 \<and>
        smooth_x t' = smooth_x t \<and> smooth_y t' = smooth_y t"
    by simp
qed

theorem C3_no_face_record_witness:
  "\<exists>r t'. process_frame
       (tracker_haar\<lparr>frame_count := 1, timestamp_ms := 33,
          smooth_x := 13 / 20, smooth_y := 7 / 20\<rparr>) frame_empty = Inr (Some r, t') \<and>
     rec_face_detected r = False \<and> rec_gesture r = ''none'' \<and>
     rec_x r = 0.5 \<and> rec_y r = 0.5 \<and> smooth_x t' = 13 / 20 \<and> smooth_y t' = 7 / 20"
  using C3_no_face_record [of "tracker_haar\<lparr>frame_count := 1, timestamp_ms := 33,
          smooth_x := 13 / 20, smooth_y := 7 / 20\<rparr>" frame_empty]
  by (simp add: tracker_haar_fields raw_point_def frame_empty_def)

text \<open>
  Claim C3 as stated fails: after one frame with the raw point (0.8, 0.2) and
  \<open>\<alpha> = 0.5\<close> the smoothed point is (0.65, 0.35); the record of the following frame,
  in which no face is detected, has \<^verbatim>\<open>x\<close> = 0.5, while the smoothed point held by
  the object is still 0.65.
\<close>

theorem C3_record_holds_smoothed_point_counterexample:
  "run_loop tracker_haar [frame_box, frame_empty] =
     Inr ([\<lparr>rec_x = 13 / 20, rec_y = 7 / 20, rec_gesture = ''none'',
             rec_face_detected = True, rec_fps = 1\<rparr>,
           \<lparr>rec_x = 1 / 2, rec_y = 1 / 2, rec_gesture = ''none'',
             rec_face_detected = False, rec_fps = 2\<rparr>],
          tracker_haar\<lparr>frame_count := 2, timestamp_ms := 66,
            smooth_x := 13 / 20, smooth_y := 7 / 20\<rparr>) \<and>
   raw_point tracker_haar frame_empty = Inr None \<and>
   smooth_x (tracker_haar\<lparr>frame_count := 2, timestamp_ms := 66,
            smooth_x := 13 / 20, smooth_y := 7 / 20\<rparr>) = 13 / 20 \<and>
   (1 / 2 :: real) \<noteq> 13 / 20"
  by (intro conjI run_loop_box_empty frame_empty_raw) simp_all




text \<open>
  Claim C8. The seed (0.5, 0.5) lies in the unit square, and for \<open>\<alpha>\<close> in [0, 1) a run of
  the loop over frames whose raw points all lie in the unit square, started with the
  smoothed point in the unit square, ends with the smoothed point in the unit square and
  has printed only records whose \<^verbatim>\<open>x\<close> and \<^verbatim>\<open>y\<close> lie in [0, 1]. As the run is
  over any list of frames, this holds after every frame.
\<close>

theorem C8_smoothed_point_in_unit_square:
  "0 \<le> smooth_x (FaceTracker_init md cam preview mp tm) \<and>
   smooth_x (FaceTracker_init md cam preview mp tm) \<le> 1 \<and>
   0 \<le> smooth_y (FaceTracker_init md cam preview mp tm) \<and>
   smooth_y (FaceTracker_init md cam preview mp tm) \<le> 1 \<and>
   (0 \<le> smoothing_factor t \<and> smoothing_factor t < 1 \<and>
    0 \<le> smooth_x t \<and> smooth_x t \<le> 1 \<and> 0 \<le> smooth_y t \<and> smooth_y t \<le> 1 \<and>
    (\<forall>fr\<in>set fs. 0 < frame_width fr \<and> 0 < frame_height fr \<and>
       (\<forall>x y. raw_point t fr = Inr (Some (x, y)) \<longrightarrow>
          0 \<le> x \<and> x \<le> 1 \<and> 0 \<le> y \<and> y \<le> 1)) \<and>
    run_loop t fs = Inr (rs, t') \<longrightarrow>
      0 \<le> smooth_x t' \<and> smooth_x t' \<le> 1 \<and> 0 \<le> smooth_y t' \<and> smooth_y t' \<le> 1 \<and>
      (\<forall>r\<in>set rs. 0 \<le> rec_x r \<and> rec_x r \<le> 1 \<and> 0 \<le> rec_y r \<and> rec_y r \<le> 1))"
proof (intro conjI impI)
  show "0 \<le> smooth_x (FaceTracker_init md cam preview mp tm)"
    "smooth_x (FaceTracker_init md cam preview mp tm) \<le> 1"
    "0 \<le> smooth_y (FaceTracker_init md cam preview mp tm)"
    "smooth_y (FaceTracker_init md cam preview mp tm) \<le> 1"
    by (simp_all add: FaceTracker_init_def)
next
  assume a: "0 \<le> smoothing_factor t \<and> smoothing_factor t < 1 \<and>
    0 \<le> smooth_x t \<and> smooth_x t \<le> 1 \<and> 0 \<le> smooth_y t \<and> smooth_y t \<le> 1 \<and>
    (\<forall>fr\<in>set fs. 0 < frame_width fr \<and> 0 < frame_height fr \<and>
       (\<forall>x y. raw_point t fr = Inr (Some (x, y)) \<longrightarrow>
          0 \<le> x \<and> x \<le> 1 \<and> 0 \<le> y \<and> y \<le> 1)) \<and>
    run_loop t fs = Inr (rs, t')"
  then have raw: "\<forall>fr\<in>set fs. \<forall>x y. raw_point t fr = Inr (Some (x, y)) \<longrightarrow>
        0 \<le> x \<and> x \<le> 1 \<and> 0 \<le> y \<and> y \<le> 1" by blast
  from a have "run_loop t fs = Inr (rs, t')" "0 \<le> smoothing_factor t"
    "smoothing_factor t < 1" "0 \<le> smooth_x t" "smooth_x t \<le> 1" "0 \<le> smooth_y t"
    "smooth_y t \<le> 1" by simp_all
  from run_loop_in_range [OF this raw]
  show "0 \<le> smooth_x t'" "smooth_x t' \<le> 1" "0 \<le> smooth_y t'" "smooth_y t' \<le> 1"
    "\<forall>r\<in>set rs. 0 \<le> rec_x r \<and> rec_x r \<le> 1 \<and> 0 \<le> rec_y r \<and> rec_y r \<le> 1"
    by blast+
qed


theorem C8_smoothed_point_in_unit_square_witness:
  "run_loop tracker_haar [frame_box, frame_empty] =
     Inr ([\<lparr>rec_x = 13 / 20, rec_y = 7 / 20, rec_gesture = ''none'',
             rec_face_detected = True, rec_fps = 1\<rparr>,
           \<lparr>rec_x = 1 / 2, rec_y = 1 / 2, rec_gesture = ''none'',
             rec_face_detected = False, rec_fps = 2\<rparr>],
          tracker_haar\<lparr>frame_count := 2, timestamp_ms := 66,
            smooth_x := 13 / 20, smooth_y := 7 / 20\<rparr>) \<and>
   raw_point tracker_haar frame_box = Inr (Some (4 / 5, 1 / 5)) \<and>
   raw_point tracker_haar frame_empty = Inr None \<and>
   0 \<le> smooth_x (tracker_haar\<lparr>frame_count := 2, timestamp_ms := 66,
            smooth_x := 13 / 20, smooth_y := 7 / 20\<rparr>) \<and>
   smooth_x (tracker_haar\<lparr>frame_count := 2, timestamp_ms := 66,
            smooth_x := 13 / 20, smooth_y := 7 / 20\<rparr>) \<le> 1 \<and>
   0 \<le> smooth_y (tracker_haar\<lparr>frame_count := 2, timestamp_ms := 66,
            smooth_x := 13 / 20, smooth_y := 7 / 20\<rparr>) \<and>
   smooth_y (tracker_haar\<lparr>frame_count := 2, timestamp_ms := 66,
            smooth_x := 13 / 20, smooth_y := 7 / 20\<rparr>) \<le> 1 \<and>
   0 \<le> smooth_x (FaceTracker_init ''nose'' 0 False False 0) \<and>
   smooth_x (FaceTracker_init ''nose'' 0 False False 0) \<le> 1"
proof -
  have hyp: "0 \<le> smoothing_factor tracker_haar \<and> smoothing_factor tracker_haar < 1 \<and>
    0 \<le> smooth_x tracker_haar \<and> smooth_x tracker_haar \<le> 1 \<and>
    0 \<le> smooth_y tracker_haar \<and> smooth_y tracker_haar \<le> 1 \<and>
    (\<forall>fr\<in>set [frame_box, frame_empty]. 0 < frame_width fr \<and> 0 < frame_height fr \<and>
       (\<forall>x y. raw_point tracker_haar fr = Inr (Some (x, y)) \<longrightarrow>
          0 \<le> x \<and> x \<le> 1 \<and> 0 \<le> y \<and> y \<le> 1))"
    by (simp add: tracker_haar_fields frame_box_raw frame_empty_raw)
      (simp add: frame_box_def frame_empty_def)
  from C8_smoothed_point_in_unit_square [of "''nose''" 0 False False 0 tracker_haar
      "[frame_box, frame_empty]" _ "tracker_haar\<lparr>frame_count := 2, timestamp_ms := 66,
            smooth_x := 13 / 20, smooth_y := 7 / 20\<rparr>"] hyp run_loop_box_empty
  show ?thesis
    using frame_box_raw frame_empty_raw by blast
qed


end
